theory Spec2Isabelle
  imports Main "HOL-Library.Sublist"
begin

section \<open>Data model of main.py\<close>

text \<open>
  The enumeration \<^verbatim>\<open>NotificationStatus\<close> and the two dataclasses of main.py.
  Python's unbounded integers are \<open>int\<close>, its strings are \<open>string\<close>.
\<close>

datatype NotificationStatus = SUCCESS | ERROR | INFO | WARNING

record ProductConfig =
  url :: string
  cart_id :: string
  bottle_handle :: string
  flavor_handle :: string
  country :: string
  language :: string

record Statistics =
  total_checks :: int
  in_stock_count :: int
  out_of_stock_count :: int
  error_count :: int

text \<open>
  Exceptions derived from Python's \<^verbatim>\<open>Exception\<close>, by the classes main.py tells apart:
  \<^verbatim>\<open>requests.exceptions.RequestException\<close> (the only class the handler of
  \<^verbatim>\<open>check_availability\<close> names), \<^verbatim>\<open>AttributeError\<close> (a read of an attribute
  that was never assigned) and any other subclass of \<^verbatim>\<open>Exception\<close> (such as the
  \<^verbatim>\<open>LocationParseError\<close> of urllib3, which the requests library lets through when a host
  name cannot be parsed). Each carries its message, which \<^verbatim>\<open>str(e)\<close> returns.
\<close>

datatype exn = RequestException string | AttributeError string | OtherException string

fun str_exn :: "exn \<Rightarrow> string" where
  "str_exn (RequestException m) = m"
| "str_exn (AttributeError m) = m"
| "str_exn (OtherException m) = m"

text \<open>\<^verbatim>\<open>isinstance(e, requests.exceptions.RequestException)\<close>.\<close>

fun is_RequestException :: "exn \<Rightarrow> bool" where
  "is_RequestException (RequestException m) = True"
| "is_RequestException (AttributeError m) = False"
| "is_RequestException (OtherException m) = False"

text \<open>
  A \<^verbatim>\<open>Statistics\<close> object is shared by reference between the checker and the
  Discord backends, so objects live in a store and are named by their address.
\<close>

type_synonym ref = nat

text \<open>
  The two notification backends. A \<^verbatim>\<open>DiscordNotificationService\<close> has the attribute
  \<^verbatim>\<open>webhook_url\<close> and, once assigned, the attribute \<^verbatim>\<open>statistics\<close>
  (\<open>None\<close>: the attribute does not exist on the object).
\<close>

datatype NotificationService =
    DesktopNotificationService
  | DiscordNotificationService string "ref option"

fun class_name :: "NotificationService \<Rightarrow> string" where
  "class_name DesktopNotificationService = ''DesktopNotificationService''"
| "class_name (DiscordNotificationService u s) = ''DiscordNotificationService''"

record EmbedField =
  field_name :: string
  field_value :: string
  field_inline :: bool

record Embed =
  embed_title :: string
  embed_description :: string
  embed_color :: nat
  embed_timestamp :: string
  embed_fields :: "EmbedField list"

text \<open>
  What the process does to the outside, in the order it happens. \<open>SendNotification\<close>
  records an invocation of a backend's \<^verbatim>\<open>send_notification\<close> with its arguments, the
  way a test double would; the other events are the calls into the operating system,
  the console, the HTTP client and the desktop notifier.
\<close>

datatype event =
    OsSystem string
  | ConsoleLog string NotificationStatus
  | PrintLine
  | HttpPost string "(string \<times> string) list" string
  | SendNotification NotificationService string string NotificationStatus
  | DesktopNotify string string nat
  | WebhookPost string "Embed list"
  | Sleep nat

record world =
  os_name :: string
  heap :: "ref \<Rightarrow> Statistics"
  trace :: "event list"

text \<open>
  What the outside answers during one check: the result of the POST to the shop (a
  response with status code and text, or an exception raised by \<^verbatim>\<open>requests.post\<close>: a
  \<^verbatim>\<open>RequestException\<close> for a transport-level failure, or an exception of any other
  class), the result of the external call made by the backend registered at each position
  (\<open>None\<close>: it returns; \<open>Some e\<close>: it raises \<open>e\<close>), and the clock read by
  \<^verbatim>\<open>datetime.utcnow().isoformat()\<close>.
\<close>

datatype http_outcome = Response int string | Raises exn

record outcomes =
  http_post :: http_outcome
  backend_call :: "nat \<Rightarrow> exn option"
  utcnow :: string

record AirUpChecker =
  product_config :: ProductConfig
  notification_services :: "NotificationService list"
  statistics :: ref
  headers :: "(string \<times> string) list"

section \<open>Strings\<close>

text \<open>\<^verbatim>\<open>str(n)\<close> for an integer: decimal digits, with a minus sign when negative.\<close>

definition digit_char :: "nat \<Rightarrow> char" where
  "digit_char d =
     (if d = 0 then CHR ''0'' else if d = 1 then CHR ''1'' else if d = 2 then CHR ''2''
      else if d = 3 then CHR ''3'' else if d = 4 then CHR ''4'' else if d = 5 then CHR ''5''
      else if d = 6 then CHR ''6'' else if d = 7 then CHR ''7'' else if d = 8 then CHR ''8''
      else CHR ''9'')"

fun str_nat :: "nat \<Rightarrow> string" where
  "str_nat n = (if n < 10 then [digit_char n] else str_nat (n div 10) @ [digit_char (n mod 10)])"

declare str_nat.simps [simp del]

definition str_int :: "int \<Rightarrow> string" where
  "str_int i = (if i < 0 then CHR ''-'' # str_nat (nat (- i)) else str_nat (nat i))"

text \<open>
  \<^verbatim>\<open>s.replace(old, new)\<close> where \<^verbatim>\<open>old\<close> is a single character, the only way main.py
  calls it: every occurrence of the character is replaced, left to right.
\<close>

definition replace :: "char \<Rightarrow> string \<Rightarrow> string \<Rightarrow> string" where
  "replace old new s = concat (map (\<lambda>c. if c = old then new else [c]) s)"

text \<open>\<^verbatim>\<open>sub in text\<close>: \<open>sub\<close> occurs in \<open>text\<close> as a contiguous substring.\<close>

fun str_contains :: "string \<Rightarrow> string \<Rightarrow> bool" where
  "str_contains [] sub = (sub = [])"
| "str_contains (c # cs) sub = (prefix sub (c # cs) \<or> str_contains cs sub)"

section \<open>Statistics.update_title and ConsoleLogger.log\<close>

definition emit :: "event \<Rightarrow> world \<Rightarrow> world" where
  "emit e w = w\<lparr>trace := trace w @ [e]\<rparr>"

text \<open>
  \<^verbatim>\<open>ConsoleLogger.log\<close> prints one line; the colour and the local time it prefixes
  are not part of the event.
\<close>

definition log :: "string \<Rightarrow> NotificationStatus \<Rightarrow> world \<Rightarrow> world" where
  "log message status w = emit (ConsoleLog message status) w"

text \<open>Line 42: the title before escaping.\<close>

definition title_text :: "Statistics \<Rightarrow> string" where
  "title_text self =
     ''AirUp Checker | No Stock: '' @ str_int (out_of_stock_count self)
       @ '' | Stock: '' @ str_int (in_stock_count self)"

text \<open>Line 44: the chain of eight \<^verbatim>\<open>replace\<close> calls, innermost first.\<close>

definition escape_title :: "string \<Rightarrow> string" where
  "escape_title title =
     replace (CHR ''>'') ''^>''
      (replace (CHR ''<'') ''^<''
       (replace (CHR ''|'') ''^|''
        (replace (CHR ''&'') ''^&''
         (replace (CHR ''^'') ''^^''
          (replace (CHR ''!'') ''^!''
           (replace (CHR '')'') ''^)''
            (replace (CHR ''('') ''^('' title)))))))"

definition update_title :: "ref \<Rightarrow> world \<Rightarrow> world" where
  "update_title self w =
     (let title = escape_title (title_text (heap w self)) in
      if os_name w = ''nt'' then emit (OsSystem (''title '' @ title)) w
      else emit (OsSystem (''echo -en '' @ [CHR 0x27, CHR 0x1B] @ '']0;'' @ title
                           @ [CHR 0x07, CHR 0x27])) w)"

section \<open>Notification backends\<close>

definition color_map :: "NotificationStatus \<Rightarrow> nat" where
  "color_map status =
     (case status of SUCCESS \<Rightarrow> 0x00FF00 | ERROR \<Rightarrow> 0xFF0000 | INFO \<Rightarrow> 0x00FFFF
      | WARNING \<Rightarrow> 0xFFFF00)"

text \<open>The four emoji, as their UTF-8 bytes.\<close>

definition emoji_map :: "NotificationStatus \<Rightarrow> string" where
  "emoji_map status =
     (case status of
        SUCCESS \<Rightarrow> [CHR 0xE2, CHR 0x9C, CHR 0x85]
      | ERROR \<Rightarrow> [CHR 0xE2, CHR 0x9D, CHR 0x8C]
      | INFO \<Rightarrow> [CHR 0xE2, CHR 0x84, CHR 0xB9, CHR 0xEF, CHR 0xB8, CHR 0x8F]
      | WARNING \<Rightarrow> [CHR 0xE2, CHR 0x9A, CHR 0xA0, CHR 0xEF, CHR 0xB8, CHR 0x8F])"

definition make_embed :: "string \<Rightarrow> string \<Rightarrow> NotificationStatus \<Rightarrow> string \<Rightarrow> Statistics \<Rightarrow> Embed" where
  "make_embed title message status now st =
     \<lparr>embed_title = emoji_map status @ '' '' @ title,
      embed_description = message,
      embed_color = color_map status,
      embed_timestamp = now,
      embed_fields =
        [\<lparr>field_name = ''Check Statistics'',
          field_value =
            ''Total Checks: '' @ str_int (total_checks st) @ [CHR 0x0A]
            @ ''In Stock Count: '' @ str_int (in_stock_count st) @ [CHR 0x0A]
            @ ''Out of Stock Count: '' @ str_int (out_of_stock_count st) @ [CHR 0x0A]
            @ ''Error Count: '' @ str_int (error_count st),
          field_inline = False\<rparr>]\<rparr>"

definition no_statistics_attribute :: exn where
  "no_statistics_attribute =
     AttributeError ([CHR 0x27] @ ''DiscordNotificationService'' @ [CHR 0x27]
        @ '' object has no attribute '' @ [CHR 0x27] @ ''statistics'' @ [CHR 0x27])"

text \<open>
  \<^verbatim>\<open>DiscordNotificationService.__init__\<close> assigns \<^verbatim>\<open>webhook_url\<close> and nothing else.
\<close>

definition DiscordNotificationService_init :: "string \<Rightarrow> NotificationService" where
  "DiscordNotificationService_init webhook_url = DiscordNotificationService webhook_url None"

text \<open>
  \<^verbatim>\<open>send_notification\<close> of the backend registered at position \<open>i\<close>. The desktop
  backend calls the notifier. The Discord backend builds the embed, reading
  \<^verbatim>\<open>self.statistics\<close> on the way (an \<^verbatim>\<open>AttributeError\<close> when the attribute was
  never assigned), and then posts it to the webhook.
\<close>

fun send_notification ::
  "outcomes \<Rightarrow> nat \<Rightarrow> NotificationService \<Rightarrow> string \<Rightarrow> string \<Rightarrow> NotificationStatus \<Rightarrow> world
     \<Rightarrow> (exn + unit) \<times> world" where
  "send_notification env i DesktopNotificationService title message status w =
     (let w1 = emit (SendNotification DesktopNotificationService title message status) w;
          w2 = emit (DesktopNotify title message 10) w1
      in case backend_call env i of
           Some e \<Rightarrow> (Inl e, w2)
         | None \<Rightarrow> (Inr (), w2))"
| "send_notification env i (DiscordNotificationService webhook_url stats) title message status w =
     (let w1 = emit (SendNotification (DiscordNotificationService webhook_url stats)
                       title message status) w
      in case stats of
           None \<Rightarrow> (Inl no_statistics_attribute, w1)
         | Some r \<Rightarrow>
             (let embed = make_embed title message status (utcnow env) (heap w1 r);
                  w2 = emit (WebhookPost webhook_url [embed]) w1
              in case backend_call env i of
                   Some e \<Rightarrow> (Inl e, w2)
                 | None \<Rightarrow> (Inr (), w2)))"

section \<open>AirUpChecker\<close>

definition get_default_headers :: "(string \<times> string) list" where
  "get_default_headers =
     [(''accept'', ''text/x-component''),
      (''accept-language'', ''it-IT,it;q=0.8''),
      (''cache-control'', ''no-cache''),
      (''content-type'', ''text/plain;charset=UTF-8''),
      (''next-action'', ''0bcc478922f9079b84673665f217b86d54bdfbb4''),
      (''sec-ch-ua'', ''\"Brave\";v=\"131\", \"Chromium\";v=\"131\", \"Not_A Brand\";v=\"24\"''),
      (''sec-ch-ua-mobile'', ''?0''),
      (''sec-ch-ua-platform'', ''\"Windows\"''),
      (''sec-fetch-dest'', ''empty''),
      (''sec-fetch-mode'', ''cors''),
      (''sec-fetch-site'', ''same-origin''),
      (''sec-gpc'', ''1'')]"

text \<open>
  The loop of \<^verbatim>\<open>__init__\<close> that shares the statistics object: only instances of
  \<^verbatim>\<open>DiscordNotificationService\<close> get the attribute.
\<close>

fun share_statistics :: "ref \<Rightarrow> NotificationService \<Rightarrow> NotificationService" where
  "share_statistics r (DiscordNotificationService webhook_url old) =
     DiscordNotificationService webhook_url (Some r)"
| "share_statistics r DesktopNotificationService = DesktopNotificationService"

definition AirUpChecker_init ::
  "ProductConfig \<Rightarrow> NotificationService list \<Rightarrow> ref \<Rightarrow> AirUpChecker" where
  "AirUpChecker_init cfg services stats =
     \<lparr>product_config = cfg,
      notification_services = map (share_statistics stats) services,
      statistics = stats,
      headers = get_default_headers\<rparr>"

definition get_request_body :: "AirUpChecker \<Rightarrow> string" where
  "get_request_body self =
     ''[{\"cartId\":\"'' @ cart_id (product_config self) @ ''\",''
     @ ''\"bottleHandle\":\"'' @ bottle_handle (product_config self) @ ''\",''
     @ ''\"flavorHandle\":\"'' @ flavor_handle (product_config self) @ ''\",''
     @ ''\"country\":\"'' @ country (product_config self) @ ''\",''
     @ ''\"language\":\"'' @ language (product_config self) @ ''\"}]''"

text \<open>
  \<^verbatim>\<open>_notify_all\<close>: the \<^verbatim>\<open>for\<close> loop over the registered backends, from position
  \<open>i\<close> on. The handler \<^verbatim>\<open>except Exception\<close> catches every \<open>exn\<close>, logs it and goes
  on with the next backend.
\<close>

fun notify_loop ::
  "outcomes \<Rightarrow> nat \<Rightarrow> NotificationService list \<Rightarrow> string \<Rightarrow> string \<Rightarrow> NotificationStatus \<Rightarrow> world
     \<Rightarrow> (exn + unit) \<times> world" where
  "notify_loop env i [] title message status w = (Inr (), w)"
| "notify_loop env i (service # rest) title message status w =
     (case send_notification env i service title message status w of
        (Inl e, w1) \<Rightarrow>
          notify_loop env (Suc i) rest title message status
            (log (''Error sending notification via '' @ class_name service @ '': '' @ str_exn e)
               ERROR w1)
      | (Inr u, w1) \<Rightarrow> notify_loop env (Suc i) rest title message status w1)"

definition notify_all ::
  "outcomes \<Rightarrow> AirUpChecker \<Rightarrow> string \<Rightarrow> string \<Rightarrow> NotificationStatus \<Rightarrow> world
     \<Rightarrow> (exn + unit) \<times> world" where
  "notify_all env self title message status w =
     notify_loop env 0 (notification_services self) title message status w"

text \<open>The four in-place increments of the counters of the object at an address.\<close>

definition incr_total_checks :: "ref \<Rightarrow> world \<Rightarrow> world" where
  "incr_total_checks r w =
     w\<lparr>heap := (heap w)(r := (heap w r)\<lparr>total_checks := total_checks (heap w r) + 1\<rparr>)\<rparr>"

definition incr_in_stock_count :: "ref \<Rightarrow> world \<Rightarrow> world" where
  "incr_in_stock_count r w =
     w\<lparr>heap := (heap w)(r := (heap w r)\<lparr>in_stock_count := in_stock_count (heap w r) + 1\<rparr>)\<rparr>"

definition incr_out_of_stock_count :: "ref \<Rightarrow> world \<Rightarrow> world" where
  "incr_out_of_stock_count r w =
     w\<lparr>heap := (heap w)(r := (heap w r)\<lparr>out_of_stock_count := out_of_stock_count (heap w r) + 1\<rparr>)\<rparr>"

definition incr_error_count :: "ref \<Rightarrow> world \<Rightarrow> world" where
  "incr_error_count r w =
     w\<lparr>heap := (heap w)(r := (heap w r)\<lparr>error_count := error_count (heap w r) + 1\<rparr>)\<rparr>"

definition available_title :: string where
  "available_title = ''AirUp Charcoal Grey Bottle Available!''"

definition available_message :: string where
  "available_message = ''The classic AirUp bottle in Charcoal Grey is now in stock. Go buy it!''"

text \<open>
  The body of the \<^verbatim>\<open>try\<close> block of \<^verbatim>\<open>check_availability\<close>: the POST, then the three
  branches on the response. An exception leaves the block as \<open>Inl\<close>.
\<close>

definition check_try ::
  "outcomes \<Rightarrow> AirUpChecker \<Rightarrow> world \<Rightarrow> (exn + bool) \<times> world" where
  "check_try env self w =
     (let w1 = emit (HttpPost (url (product_config self)) (headers self) (get_request_body self)) w
      in case http_post env of
           Raises e \<Rightarrow> (Inl e, w1)
         | Response status_code text \<Rightarrow>
             if status_code = 200 then
               if str_contains text ''OUT_OF_STOCK'' then
                 (let w2 = incr_out_of_stock_count (statistics self) w1;
                      w3 = log ''Still out of stock...'' WARNING w2;
                      w4 = update_title (statistics self) w3
                  in (Inr False, w4))
               else
                 (let w2 = incr_in_stock_count (statistics self) w1;
                      w3 = log ''IN STOCK! Sending notifications...'' SUCCESS w2
                  in case notify_all env self available_title available_message SUCCESS w3 of
                       (Inl e, w4) \<Rightarrow> (Inl e, w4)
                     | (Inr u, w4) \<Rightarrow> (Inr True, update_title (statistics self) w4))
             else
               (let w2 = incr_error_count (statistics self) w1;
                    w3 = log (''Unexpected status code: '' @ str_int status_code) ERROR w2;
                    w4 = update_title (statistics self) w3
                in (Inr False, w4)))"

text \<open>
  \<^verbatim>\<open>check_availability\<close>: the increment of \<^verbatim>\<open>total_checks\<close>, the \<^verbatim>\<open>try\<close> block,
  and the handler, which catches a \<^verbatim>\<open>RequestException\<close> and lets any other exception
  through to the caller.
\<close>

definition check_availability ::
  "outcomes \<Rightarrow> AirUpChecker \<Rightarrow> world \<Rightarrow> (exn + bool) \<times> world" where
  "check_availability env self w =
     (case check_try env self (incr_total_checks (statistics self) w) of
        (Inl (RequestException m), w1) \<Rightarrow>
          (let w2 = incr_error_count (statistics self) w1;
               w3 = log (''Error checking availability: '' @ m) ERROR w2;
               w4 = update_title (statistics self) w3
           in (Inr False, w4))
      | (Inl e, w1) \<Rightarrow> (Inl e, w1)
      | (Inr b, w1) \<Rightarrow> (Inr b, w1))"

section \<open>Observing a run\<close>

text \<open>
  The invocations of \<^verbatim>\<open>send_notification\<close> recorded in a trace, in order: which
  backend was called, and with which title, message and status.
\<close>

fun call_of :: "event \<Rightarrow> (NotificationService \<times> string \<times> string \<times> NotificationStatus) list" where
  "call_of (SendNotification s t m st) = [(s, t, m, st)]"
| "call_of e = []"

definition send_calls :: "event list \<Rightarrow> (NotificationService \<times> string \<times> string \<times> NotificationStatus) list" where
  "send_calls tr = concat (map call_of tr)"

text \<open>
  The objects \<^verbatim>\<open>main\<close> builds: the default \<^verbatim>\<open>Statistics()\<close>, the product
  configuration, the two backends and the checker over the statistics object at
  address 0; and the world a run starts in.
\<close>

definition Statistics_init :: Statistics where
  "Statistics_init = \<lparr>total_checks = 0, in_stock_count = 0, out_of_stock_count = 0, error_count = 0\<rparr>"

definition main_product_config :: ProductConfig where
  "main_product_config =
     \<lparr>url = ''https://shop.air-up.com/it/en/bottles/classic/bottle-tritan-650ml-charcoal-grey-us'',
      cart_id = ''your_cart_id_here'',
      bottle_handle = ''bottle-tritan-650ml-charcoal-grey-us'',
      flavor_handle = ''3-pod-variety-pack-vivid-vibes-udb'',
      country = ''it'',
      language = ''en''\<rparr>"

definition main_notification_services :: "NotificationService list" where
  "main_notification_services =
     [DesktopNotificationService, DiscordNotificationService_init ''your_webhook_link_here'']"

definition main_checker :: AirUpChecker where
  "main_checker = AirUpChecker_init main_product_config main_notification_services 0"

definition initial_world :: "string \<Rightarrow> world" where
  "initial_world os = \<lparr>os_name = os, heap = (\<lambda>r. Statistics_init), trace = []\<rparr>"

text \<open>Sample answers of the outside, used to run the model on concrete inputs.\<close>

definition answer_in_stock :: outcomes where
  "answer_in_stock =
     \<lparr>http_post = Response 200 ''0:[]'', backend_call = (\<lambda>i. None),
      utcnow = ''2024-12-01T10:00:00''\<rparr>"

definition answer_out_of_stock :: outcomes where
  "answer_out_of_stock =
     \<lparr>http_post = Response 200 ''1:{\"error\":\"OUT_OF_STOCK\"}'', backend_call = (\<lambda>i. None),
      utcnow = ''2024-12-01T10:00:00''\<rparr>"

definition answer_server_error :: outcomes where
  "answer_server_error =
     \<lparr>http_post = Response 500 ''Internal Server Error'', backend_call = (\<lambda>i. None),
      utcnow = ''2024-12-01T10:00:00''\<rparr>"

definition answer_timeout :: outcomes where
  "answer_timeout =
     \<lparr>http_post = Raises (RequestException ''Read timed out.''), backend_call = (\<lambda>i. None),
      utcnow = ''2024-12-01T10:00:00''\<rparr>"

text \<open>
  An answer in which \<^verbatim>\<open>requests.post\<close> raises an exception that is not a
  \<^verbatim>\<open>RequestException\<close>: the \<^verbatim>\<open>LocationParseError\<close> for a host name with an over-long label.
\<close>

definition answer_location_error :: outcomes where
  "answer_location_error =
     \<lparr>http_post = Raises (OtherException ''Failed to parse: label empty or too long''),
      backend_call = (\<lambda>i. None), utcnow = ''2024-12-01T10:00:00''\<rparr>"

text \<open>
  The answers the handler of \<^verbatim>\<open>check_availability\<close> deals with: the POST returns a
  response, or raises a \<^verbatim>\<open>RequestException\<close>.
\<close>

definition handled :: "outcomes \<Rightarrow> bool" where
  "handled env =
     (case http_post env of
        Response status_code body \<Rightarrow> True
      | Raises e \<Rightarrow> is_RequestException e)"

text \<open>
  A driver that calls \<^verbatim>\<open>check_availability\<close> once for each of a list of answers of
  the outside, threading the world through the calls; an exception that leaves a call
  ends the run.
\<close>

fun run_checks :: "outcomes list \<Rightarrow> AirUpChecker \<Rightarrow> world \<Rightarrow> (exn + unit) \<times> world" where
  "run_checks [] self w = (Inr (), w)"
| "run_checks (env # envs) self w =
     (case check_availability env self w of
        (Inl e, w1) \<Rightarrow> (Inl e, w1)
      | (Inr b, w1) \<Rightarrow> run_checks envs self w1)"

text \<open>An answer in which the shop has stock and every backend's external call raises.\<close>

definition answer_backends_fail :: outcomes where
  "answer_backends_fail =
     \<lparr>http_post = Response 200 ''0:[]'',
      backend_call = (\<lambda>i. Some (OtherException ''No usable implementation found!'')),
      utcnow = ''2024-12-01T10:00:00''\<rparr>"

section \<open>The main loop\<close>

text \<open>
  The \<^verbatim>\<open>while True\<close> loop of \<^verbatim>\<open>main\<close>, from its \<open>k\<close>-th iteration on; \<open>answers k\<close>
  is what the outside answers during that iteration. The loop may run forever: \<open>None\<close>
  is the run that never returns, \<open>Some (Inr (), w)\<close> a normal return in world \<open>w\<close>, and
  \<open>Some (Inl e, w)\<close> an exception that leaves \<^verbatim>\<open>main\<close>.
\<close>

partial_function (option) main_loop ::
  "(nat \<Rightarrow> outcomes) \<Rightarrow> AirUpChecker \<Rightarrow> nat \<Rightarrow> world \<Rightarrow> ((exn + unit) \<times> world) option" where
  "main_loop answers checker k w =
     (case check_availability (answers k) checker w of
        (Inl e, w1) \<Rightarrow> Some (Inl e, w1)
      | (Inr available, w1) \<Rightarrow>
          if available then Some (Inr (), log ''Stopping script as item is in stock.'' SUCCESS w1)
          else main_loop answers checker (Suc k)
                 (emit (Sleep 300)
                    (emit PrintLine (log ''Waiting 5 minutes before the next check...'' INFO w1))))"

text \<open>
  \<^verbatim>\<open>main\<close>: clear the console, create the statistics object (at address 0) and set the
  title, build the configuration, the two backends and the checker, log the start, loop.
\<close>

definition main :: "string \<Rightarrow> (nat \<Rightarrow> outcomes) \<Rightarrow> ((exn + unit) \<times> world) option" where
  "main os answers =
     (let w0 = \<lparr>os_name = os, heap = (\<lambda>r. Statistics_init), trace = []\<rparr>;
          w1 = emit (OsSystem (if os = ''nt'' then ''cls'' else ''clear'')) w0;
          stats = 0;
          w2 = w1\<lparr>heap := (heap w1)(stats := Statistics_init)\<rparr>;
          w3 = update_title stats w2;
          checker = AirUpChecker_init main_product_config main_notification_services stats;
          w4 = log ''Starting availability checker for AirUp Charcoal Grey bottle...'' INFO w3
      in main_loop answers checker 0 w4)"

text \<open>
  The world at the head of the loop after \<open>n\<close> iterations that did not break, each
  ending with the waiting line, the empty line and the sleep of 300 seconds.
\<close>

fun cycles :: "nat \<Rightarrow> (nat \<Rightarrow> outcomes) \<Rightarrow> AirUpChecker \<Rightarrow> nat \<Rightarrow> world \<Rightarrow> world" where
  "cycles 0 answers checker k w = w"
| "cycles (Suc n) answers checker k w =
     cycles n answers checker (Suc k)
       (emit (Sleep 300)
          (emit PrintLine
             (log ''Waiting 5 minutes before the next check...'' INFO
                (snd (check_availability (answers k) checker w)))))"

text \<open>The answers on which \<^verbatim>\<open>check_availability\<close> reports stock.\<close>

definition in_stock :: "outcomes \<Rightarrow> bool" where
  "in_stock env =
     (case http_post env of
        Response status_code body \<Rightarrow> status_code = 200 \<and> \<not> str_contains body ''OUT_OF_STOCK''
      | Raises e \<Rightarrow> False)"

text \<open>
  The exception that leaves \<^verbatim>\<open>check_availability\<close> on an answer, if any: one raised by
  the POST that is not a \<^verbatim>\<open>RequestException\<close>.
\<close>

definition escapes :: "outcomes \<Rightarrow> exn option" where
  "escapes env =
     (case http_post env of
        Response status_code body \<Rightarrow> None
      | Raises e \<Rightarrow> if is_RequestException e then None else Some e)"

text \<open>The answers on which \<^verbatim>\<open>check_availability\<close> returns \<open>False\<close>.\<close>

definition no_stock :: "outcomes \<Rightarrow> bool" where
  "no_stock env = (\<not> in_stock env \<and> escapes env = None)"

text \<open>
  The pace of a run: its POSTs to the shop and its sleeps, in order, with everything
  else left out of the trace.
\<close>

fun pace_of :: "event \<Rightarrow> event list" where
  "pace_of (HttpPost u h b) = [HttpPost u h b]"
| "pace_of (Sleep n) = [Sleep n]"
| "pace_of e = []"

definition pacing :: "event list \<Rightarrow> event list" where
  "pacing tr = concat (map pace_of tr)"

definition the_post :: "AirUpChecker \<Rightarrow> event" where
  "the_post checker = HttpPost (url (product_config checker)) (headers checker) (get_request_body checker)"

text \<open>
  Three sequences of answers: stock at the third check, never any stock, and a POST that
  raises a \<^verbatim>\<open>LocationParseError\<close> at the second check.
\<close>

definition answers_stock_at_third :: "nat \<Rightarrow> outcomes" where
  "answers_stock_at_third k = (if k = 2 then answer_in_stock else answer_out_of_stock)"

definition answers_never_stock :: "nat \<Rightarrow> outcomes" where
  "answers_never_stock k = (if even k then answer_out_of_stock else answer_timeout)"

definition answers_location_error :: "nat \<Rightarrow> outcomes" where
  "answers_location_error k = (if k = 1 then answer_location_error else answer_out_of_stock)"

section \<open>Caret escaping, as the specification words it\<close>

text \<open>
  The characters the title-setting mechanism treats specially, and the escaping the
  specification describes: each of them is prefixed with exactly one caret, every other
  character is kept.
\<close>

definition caret_special :: "char \<Rightarrow> bool" where
  "caret_special c = (c \<in> set ''()!^&|<>'')"

definition caret_escape :: "string \<Rightarrow> string" where
  "caret_escape s = concat (map (\<lambda>c. if caret_special c then [CHR ''^'', c] else [c]) s)"

section \<open>JSON, for the shape of the request body\<close>

text \<open>
  What it is for a text to be a JSON array holding exactly one object whose members all
  have string values (the grammar of RFC 8259): the text is cut into tokens, with
  whitespace allowed between them and the escapes of JSON strings decoded, and the
  tokens must read \<^verbatim>\<open>[ { "k" : "v" , ... } ]\<close>. \<open>decode_body\<close> returns the members
  in the order written, or \<open>None\<close> when the text is not of that shape. Characters are
  the model's 8-bit characters, so a \<^verbatim>\<open>\u\<close> escape is decoded when its code point is below 256.
\<close>

datatype json_token = LBracket | RBracket | LBrace | RBrace | Colon | Comma | Str string

definition json_ws :: "char \<Rightarrow> bool" where
  "json_ws c = (c = CHR '' '' \<or> c = CHR 0x09 \<or> c = CHR 0x0A \<or> c = CHR 0x0D)"

definition json_unescaped :: "char \<Rightarrow> bool" where
  "json_unescaped c = (c \<noteq> CHR 0x22 \<and> c \<noteq> CHR 0x5C \<and> 32 \<le> (of_char c :: nat))"

definition json_escape :: "char \<Rightarrow> char option" where
  "json_escape e =
     (if e = CHR 0x22 then Some (CHR 0x22)
      else if e = CHR 0x5C then Some (CHR 0x5C)
      else if e = CHR ''/'' then Some (CHR ''/'')
      else if e = CHR ''b'' then Some (CHR 0x08)
      else if e = CHR ''f'' then Some (CHR 0x0C)
      else if e = CHR ''n'' then Some (CHR 0x0A)
      else if e = CHR ''r'' then Some (CHR 0x0D)
      else if e = CHR ''t'' then Some (CHR 0x09)
      else None)"

definition hex_digit :: "char \<Rightarrow> nat option" where
  "hex_digit c =
     (let n = (of_char c :: nat) in
      if 48 \<le> n \<and> n \<le> 57 then Some (n - 48)
      else if 65 \<le> n \<and> n \<le> 70 then Some (n - 55)
      else if 97 \<le> n \<and> n \<le> 102 then Some (n - 87)
      else None)"

definition json_unicode :: "char \<Rightarrow> char \<Rightarrow> char \<Rightarrow> char \<Rightarrow> char option" where
  "json_unicode a b c d =
     (case (hex_digit a, hex_digit b, hex_digit c, hex_digit d) of
        (Some x, Some y, Some z, Some u) \<Rightarrow>
          (let n = ((x * 16 + y) * 16 + z) * 16 + u in if n < 256 then Some (char_of n) else None)
      | _ \<Rightarrow> None)"

fun lex_json :: "string \<Rightarrow> json_token list option"
  and lex_string :: "string \<Rightarrow> (string \<times> json_token list) option" where
  "lex_json [] = Some []"
| "lex_json (c # cs) =
     (if json_ws c then lex_json cs
      else if c = CHR ''['' then map_option (Cons LBracket) (lex_json cs)
      else if c = CHR '']'' then map_option (Cons RBracket) (lex_json cs)
      else if c = CHR ''{'' then map_option (Cons LBrace) (lex_json cs)
      else if c = CHR ''}'' then map_option (Cons RBrace) (lex_json cs)
      else if c = CHR '':'' then map_option (Cons Colon) (lex_json cs)
      else if c = CHR '','' then map_option (Cons Comma) (lex_json cs)
      else if c = CHR 0x22 then map_option (\<lambda>(s, ts). Str s # ts) (lex_string cs)
      else None)"
| "lex_string [] = None"
| "lex_string (c # cs) =
     (if c = CHR 0x22 then map_option (Pair []) (lex_json cs)
      else if c = CHR 0x5C then
        (case cs of
           [] \<Rightarrow> None
         | e # cs1 \<Rightarrow>
             if e = CHR ''u'' then
               (case cs1 of
                  h1 # h2 # h3 # h4 # cs2 \<Rightarrow>
                    (case json_unicode h1 h2 h3 h4 of
                       Some ch \<Rightarrow> map_option (\<lambda>(s, ts). (ch # s, ts)) (lex_string cs2)
                     | None \<Rightarrow> None)
                | _ \<Rightarrow> None)
             else
               (case json_escape e of
                  Some ch \<Rightarrow> map_option (\<lambda>(s, ts). (ch # s, ts)) (lex_string cs1)
                | None \<Rightarrow> None))
      else if json_unescaped c then map_option (\<lambda>(s, ts). (c # s, ts)) (lex_string cs)
      else None)"

fun json_members :: "json_token list \<Rightarrow> ((string \<times> string) list \<times> json_token list) option" where
  "json_members (Str k # Colon # Str v # t # ts) =
     (if t = Comma then map_option (\<lambda>(ms, rest). ((k, v) # ms, rest)) (json_members ts)
      else if t = RBrace then Some ([(k, v)], ts)
      else None)"
| "json_members ts = None"

definition decode_body :: "string \<Rightarrow> (string \<times> string) list option" where
  "decode_body s =
     (case lex_json s of
        Some (LBracket # LBrace # ts) \<Rightarrow>
          if ts = [RBrace, RBracket] then Some []
          else (case json_members ts of
                  Some (ms, rest) \<Rightarrow> if rest = [RBracket] then Some ms else None
                | None \<Rightarrow> None)
      | _ \<Rightarrow> None)"

text \<open>
  The strings a template may put between two double quotes as they are: no double
  quote, no backslash, no control character.
\<close>

definition json_plain :: "string \<Rightarrow> bool" where
  "json_plain s = list_all json_unescaped s"

text \<open>
  A checker over the configuration of \<^verbatim>\<open>main\<close> with a \<^verbatim>\<open>cart_id\<close> that contains double
  quotes.
\<close>

definition quoted_checker :: AirUpChecker where
  "quoted_checker =
     AirUpChecker_init (main_product_config\<lparr>cart_id := ''a\",\"x\":\"b''\<rparr>) main_notification_services 0"

section \<open>Basic facts about the effects\<close>

lemma send_calls_append [simp]: "send_calls (xs @ ys) = send_calls xs @ send_calls ys"
  by (simp add: send_calls_def)

lemma send_calls_Nil [simp]: "send_calls [] = []"
  by (simp add: send_calls_def)

lemma send_calls_Cons [simp]: "send_calls (e # es) = call_of e @ send_calls es"
  by (simp add: send_calls_def)

lemma emit_fields [simp]:
  "heap (emit e w) = heap w" "trace (emit e w) = trace w @ [e]" "os_name (emit e w) = os_name w"
  by (simp_all add: emit_def)

lemma log_fields [simp]:
  "heap (log m s w) = heap w" "trace (log m s w) = trace w @ [ConsoleLog m s]"
  "os_name (log m s w) = os_name w"
  by (simp_all add: log_def)

lemma update_title_fields [simp]:
  "heap (update_title r w) = heap w" "os_name (update_title r w) = os_name w"
  "send_calls (trace (update_title r w)) = send_calls (trace w)"
  by (simp_all add: update_title_def Let_def)

lemma incr_fields [simp]:
  "trace (incr_total_checks r w) = trace w" "os_name (incr_total_checks r w) = os_name w"
  "trace (incr_in_stock_count r w) = trace w" "os_name (incr_in_stock_count r w) = os_name w"
  "trace (incr_out_of_stock_count r w) = trace w" "os_name (incr_out_of_stock_count r w) = os_name w"
  "trace (incr_error_count r w) = trace w" "os_name (incr_error_count r w) = os_name w"
  by (simp_all add: incr_total_checks_def incr_in_stock_count_def incr_out_of_stock_count_def
        incr_error_count_def)

lemma incr_heap:
  "heap (incr_total_checks r w) = (heap w)(r := (heap w r)\<lparr>total_checks := total_checks (heap w r) + 1\<rparr>)"
  "heap (incr_in_stock_count r w) = (heap w)(r := (heap w r)\<lparr>in_stock_count := in_stock_count (heap w r) + 1\<rparr>)"
  "heap (incr_out_of_stock_count r w) = (heap w)(r := (heap w r)\<lparr>out_of_stock_count := out_of_stock_count (heap w r) + 1\<rparr>)"
  "heap (incr_error_count r w) = (heap w)(r := (heap w r)\<lparr>error_count := error_count (heap w r) + 1\<rparr>)"
  by (simp_all add: incr_total_checks_def incr_in_stock_count_def incr_out_of_stock_count_def
        incr_error_count_def)

lemma send_notification_heap [simp]:
  "heap (snd (send_notification env i s t m st w)) = heap w"
  by (cases s) (auto simp: Let_def split: option.splits)

lemma send_notification_os [simp]:
  "os_name (snd (send_notification env i s t m st w)) = os_name w"
  by (cases s) (auto simp: Let_def split: option.splits)

lemma send_notification_calls [simp]:
  "send_calls (trace (snd (send_notification env i s t m st w))) = send_calls (trace w) @ [(s, t, m, st)]"
  by (cases s) (auto simp: Let_def split: option.splits)

lemma notify_loop_result: "fst (notify_loop env i svcs t m st w) = Inr ()"
  by (induction svcs arbitrary: i w) (auto split: prod.splits sum.splits)

lemma notify_loop_heap: "heap (snd (notify_loop env i svcs t m st w)) = heap w"
proof (induction svcs arbitrary: i w)
  case Nil
  show ?case by simp
next
  case (Cons s svcs)
  obtain r w1 where sn: "send_notification env i s t m st w = (r, w1)" by (cases "send_notification env i s t m st w")
  have h: "heap w1 = heap w" using send_notification_heap [of env i s t m st w] sn by simp
  show ?case using sn h Cons.IH by (cases r) simp_all
qed

lemma notify_loop_os: "os_name (snd (notify_loop env i svcs t m st w)) = os_name w"
proof (induction svcs arbitrary: i w)
  case Nil
  show ?case by simp
next
  case (Cons s svcs)
  obtain r w1 where sn: "send_notification env i s t m st w = (r, w1)" by (cases "send_notification env i s t m st w")
  have h: "os_name w1 = os_name w" using send_notification_os [of env i s t m st w] sn by simp
  show ?case using sn h Cons.IH by (cases r) simp_all
qed

lemma notify_loop_calls:
  "send_calls (trace (snd (notify_loop env i svcs t m st w)))
     = send_calls (trace w) @ map (\<lambda>s. (s, t, m, st)) svcs"
proof (induction svcs arbitrary: i w)
  case Nil
  show ?case by simp
next
  case (Cons s svcs)
  obtain r w1 where sn: "send_notification env i s t m st w = (r, w1)" by (cases "send_notification env i s t m st w")
  have h: "send_calls (trace w1) = send_calls (trace w) @ [(s, t, m, st)]"
    using send_notification_calls [of env i s t m st w] sn by simp
  show ?case using sn h Cons.IH by (cases r) simp_all
qed

lemma check_try_in_stock:
  assumes "http_post env = Response 200 text" "\<not> str_contains text ''OUT_OF_STOCK''"
  shows "check_try env self w =
           (Inr True, update_title (statistics self)
              (snd (notify_all env self available_title available_message SUCCESS
                 (log ''IN STOCK! Sending notifications...'' SUCCESS
                    (incr_in_stock_count (statistics self)
                       (emit (HttpPost (url (product_config self)) (headers self) (get_request_body self)) w))))))"
proof -
  let ?w3 = "log ''IN STOCK! Sending notifications...'' SUCCESS
                    (incr_in_stock_count (statistics self)
                       (emit (HttpPost (url (product_config self)) (headers self) (get_request_body self)) w))"
  obtain r w4 where n: "notify_all env self available_title available_message SUCCESS ?w3 = (r, w4)"
    by (cases "notify_all env self available_title available_message SUCCESS ?w3")
  have "r = Inr ()" using notify_loop_result [of env 0 "notification_services self" available_title available_message SUCCESS ?w3] n
    by (simp add: notify_all_def)
  then show ?thesis using assms n by (simp add: check_try_def Let_def)
qed

lemma send_notification_result_indep:
  "fst (send_notification env i s t m st w) = fst (send_notification env i s t m st w')"
  by (cases s) (auto simp: Let_def split: option.splits)

lemma send_notification_extends:
  "\<exists>evs. trace (snd (send_notification env i s t m st w)) = trace w @ evs"
  by (cases s) (auto simp: Let_def split: option.splits)

lemma notify_loop_extends:
  "\<exists>evs. trace (snd (notify_loop env i svcs t m st w)) = trace w @ evs"
proof (induction svcs arbitrary: i w)
  case Nil
  show ?case by simp
next
  case (Cons s svcs)
  obtain r w1 where sn: "send_notification env i s t m st w = (r, w1)"
    by (cases "send_notification env i s t m st w")
  obtain evs where e1: "trace w1 = trace w @ evs"
    using send_notification_extends [of env i s t m st w] sn by auto
  show ?case
  proof (cases r)
    case (Inl e)
    let ?w2 = "log (''Error sending notification via '' @ class_name s @ '': '' @ str_exn e) ERROR w1"
    obtain evs2 where "trace (snd (notify_loop env (Suc i) svcs t m st ?w2)) = trace ?w2 @ evs2"
      using Cons.IH by blast
    then show ?thesis using sn Inl e1 by simp
  next
    case (Inr u)
    obtain evs2 where "trace (snd (notify_loop env (Suc i) svcs t m st w1)) = trace w1 @ evs2"
      using Cons.IH by blast
    then show ?thesis using sn Inr e1 by simp
  qed
qed

lemma notify_loop_logged:
  assumes "j < length svcs"
    and "fst (send_notification env (i + j) (svcs ! j) t m st w0) = Inl e"
  shows "ConsoleLog (''Error sending notification via '' @ class_name (svcs ! j) @ '': '' @ str_exn e) ERROR
           \<in> set (trace (snd (notify_loop env i svcs t m st w)))"
  using assms
proof (induction svcs arbitrary: i j w)
  case Nil
  then show ?case by simp
next
  case (Cons s svcs)
  obtain r w1 where sn: "send_notification env i s t m st w = (r, w1)"
    by (cases "send_notification env i s t m st w")
  show ?case
  proof (cases j)
    case 0
    have "fst (send_notification env i s t m st w) = Inl e"
      using Cons.prems(2) 0 send_notification_result_indep [of env i s t m st w w0] by simp
    then have r: "r = Inl e" using sn by simp
    let ?w2 = "log (''Error sending notification via '' @ class_name s @ '': '' @ str_exn e) ERROR w1"
    obtain evs where "trace (snd (notify_loop env (Suc i) svcs t m st ?w2)) = trace ?w2 @ evs"
      using notify_loop_extends by blast
    then show ?thesis using sn r 0 by simp
  next
    case (Suc k)
    have k: "k < length svcs" using Cons.prems(1) Suc by simp
    have f: "fst (send_notification env (Suc i + k) (svcs ! k) t m st w0) = Inl e"
      using Cons.prems(2) Suc by simp
    have ih: "\<And>w'. ConsoleLog (''Error sending notification via '' @ class_name (svcs ! k) @ '': '' @ str_exn e) ERROR
           \<in> set (trace (snd (notify_loop env (Suc i) svcs t m st w')))"
      using Cons.IH [OF k f] .
    show ?thesis using sn Suc ih by (cases r) simp_all
  qed
qed

lemma check_availability_in_stock_eq:
  assumes "http_post env = Response 200 text" "\<not> str_contains text ''OUT_OF_STOCK''"
  shows "check_availability env self w =
           (Inr True, update_title (statistics self)
              (snd (notify_all env self available_title available_message SUCCESS
                 (log ''IN STOCK! Sending notifications...'' SUCCESS
                    (incr_in_stock_count (statistics self)
                       (emit (HttpPost (url (product_config self)) (headers self) (get_request_body self))
                          (incr_total_checks (statistics self) w)))))))"
  using check_try_in_stock [OF assms] by (simp add: check_availability_def)

lemma check_availability_out_of_stock_eq:
  assumes "http_post env = Response 200 text" "str_contains text ''OUT_OF_STOCK''"
  shows "check_availability env self w =
           (Inr False, update_title (statistics self)
              (log ''Still out of stock...'' WARNING
                 (incr_out_of_stock_count (statistics self)
                    (emit (HttpPost (url (product_config self)) (headers self) (get_request_body self))
                       (incr_total_checks (statistics self) w)))))"
  using assms by (simp add: check_availability_def check_try_def Let_def)

lemma check_availability_bad_status_eq:
  assumes "http_post env = Response status_code text" "status_code \<noteq> 200"
  shows "check_availability env self w =
           (Inr False, update_title (statistics self)
              (log (''Unexpected status code: '' @ str_int status_code) ERROR
                 (incr_error_count (statistics self)
                    (emit (HttpPost (url (product_config self)) (headers self) (get_request_body self))
                       (incr_total_checks (statistics self) w)))))"
  using assms by (simp add: check_availability_def check_try_def Let_def)

lemma check_availability_failed_eq:
  assumes "http_post env = Raises (RequestException msg)"
  shows "check_availability env self w =
           (Inr False, update_title (statistics self)
              (log (''Error checking availability: '' @ msg) ERROR
                 (incr_error_count (statistics self)
                    (emit (HttpPost (url (product_config self)) (headers self) (get_request_body self))
                       (incr_total_checks (statistics self) w)))))"
  using assms by (simp add: check_availability_def check_try_def Let_def)

lemma check_availability_escapes_eq:
  assumes "http_post env = Raises e" and "\<not> is_RequestException e"
  shows "check_availability env self w =
           (Inl e, emit (HttpPost (url (product_config self)) (headers self) (get_request_body self))
                     (incr_total_checks (statistics self) w))"
  using assms by (cases e) (simp_all add: check_availability_def check_try_def Let_def)

lemma notify_all_heap [simp]: "heap (snd (notify_all env self t m st w)) = heap w"
  by (simp add: notify_all_def notify_loop_heap)

lemma notify_all_calls [simp]:
  "send_calls (trace (snd (notify_all env self t m st w)))
     = send_calls (trace w) @ map (\<lambda>s. (s, t, m, st)) (notification_services self)"
  by (simp add: notify_all_def notify_loop_calls)

section \<open>The three outcomes of a check\<close>

text \<open>
  Claim C1. When the response has status 200 and its text does not contain
  \<^verbatim>\<open>OUT_OF_STOCK\<close>, \<^verbatim>\<open>check_availability\<close> returns \<open>True\<close>; in the statistics object
  \<^verbatim>\<open>total_checks\<close> and \<^verbatim>\<open>in_stock_count\<close> have grown by one and nothing else in the
  store has changed; and the invocations of \<^verbatim>\<open>send_notification\<close> made during the call
  are exactly one per registered backend, in registration order, each with the
  availability title and message and the status \<open>SUCCESS\<close>.
\<close>

theorem check_availability_in_stock:
  assumes "http_post env = Response 200 text" and "\<not> str_contains text ''OUT_OF_STOCK''"
  shows "fst (check_availability env self w) = Inr True
     \<and> heap (snd (check_availability env self w))
         = (heap w)(statistics self := (heap w (statistics self))
             \<lparr>total_checks := total_checks (heap w (statistics self)) + 1,
              in_stock_count := in_stock_count (heap w (statistics self)) + 1\<rparr>)
     \<and> send_calls (trace (snd (check_availability env self w)))
         = send_calls (trace w)
             @ map (\<lambda>s. (s, available_title, available_message, SUCCESS)) (notification_services self)"
  by (simp add: check_availability_in_stock_eq [OF assms] incr_heap)

theorem check_availability_in_stock_witness:
  "fst (check_availability answer_in_stock main_checker (initial_world ''posix'')) = Inr True
   \<and> heap (snd (check_availability answer_in_stock main_checker (initial_world ''posix''))) 0
       = \<lparr>total_checks = 1, in_stock_count = 1, out_of_stock_count = 0, error_count = 0\<rparr>
   \<and> send_calls (trace (snd (check_availability answer_in_stock main_checker (initial_world ''posix''))))
       = [(DesktopNotificationService, available_title, available_message, SUCCESS),
          (DiscordNotificationService ''your_webhook_link_here'' (Some 0),
             available_title, available_message, SUCCESS)]"
proof -
  have h1: "http_post answer_in_stock = Response 200 ''0:[]''"
    by (simp add: answer_in_stock_def)
  have h2: "\<not> str_contains ''0:[]'' ''OUT_OF_STOCK''"
    by simp
  show ?thesis
    using check_availability_in_stock [OF h1 h2, of main_checker "initial_world ''posix''"]
    by (simp add: main_checker_def AirUpChecker_init_def main_notification_services_def
          DiscordNotificationService_init_def initial_world_def Statistics_init_def)
qed

text \<open>
  Claim C3. When the response has status 200 and its text contains \<^verbatim>\<open>OUT_OF_STOCK\<close>,
  \<^verbatim>\<open>check_availability\<close> returns \<open>False\<close>; \<^verbatim>\<open>total_checks\<close> and
  \<^verbatim>\<open>out_of_stock_count\<close> have grown by one, \<^verbatim>\<open>in_stock_count\<close> and
  \<^verbatim>\<open>error_count\<close> are unchanged, and no backend's \<^verbatim>\<open>send_notification\<close> was invoked.
\<close>

theorem check_availability_out_of_stock:
  assumes "http_post env = Response 200 text" and "str_contains text ''OUT_OF_STOCK''"
  shows "fst (check_availability env self w) = Inr False
     \<and> heap (snd (check_availability env self w))
         = (heap w)(statistics self := (heap w (statistics self))
             \<lparr>total_checks := total_checks (heap w (statistics self)) + 1,
              out_of_stock_count := out_of_stock_count (heap w (statistics self)) + 1\<rparr>)
     \<and> send_calls (trace (snd (check_availability env self w))) = send_calls (trace w)"
  by (simp add: check_availability_out_of_stock_eq [OF assms] incr_heap)

theorem check_availability_out_of_stock_witness:
  "fst (check_availability answer_out_of_stock main_checker (initial_world ''posix'')) = Inr False
   \<and> heap (snd (check_availability answer_out_of_stock main_checker (initial_world ''posix''))) 0
       = \<lparr>total_checks = 1, in_stock_count = 0, out_of_stock_count = 1, error_count = 0\<rparr>
   \<and> send_calls (trace (snd (check_availability answer_out_of_stock main_checker (initial_world ''posix''))))
       = []"
proof -
  have h1: "http_post answer_out_of_stock = Response 200 ''1:{\"error\":\"OUT_OF_STOCK\"}''"
    by (simp add: answer_out_of_stock_def)
  have h2: "str_contains ''1:{\"error\":\"OUT_OF_STOCK\"}'' ''OUT_OF_STOCK''"
    by simp
  show ?thesis
    using check_availability_out_of_stock [OF h1 h2, of main_checker "initial_world ''posix''"]
    by (simp add: main_checker_def AirUpChecker_init_def initial_world_def Statistics_init_def)
qed

text \<open>
  Claim C4. When the POST raises a transport-level error (a \<^verbatim>\<open>RequestException\<close>), or the response has a status
  other than 200, \<^verbatim>\<open>check_availability\<close> returns \<open>False\<close> as a value (no exception
  reaches the caller); \<^verbatim>\<open>total_checks\<close> and \<^verbatim>\<open>error_count\<close> have grown by one,
  \<^verbatim>\<open>in_stock_count\<close> and \<^verbatim>\<open>out_of_stock_count\<close> are unchanged, and no backend's
  \<^verbatim>\<open>send_notification\<close> was invoked.
\<close>

theorem check_availability_error:
  assumes "(\<exists>msg. http_post env = Raises (RequestException msg))
           \<or> (\<exists>status_code text. http_post env = Response status_code text \<and> status_code \<noteq> 200)"
  shows "fst (check_availability env self w) = Inr False
     \<and> heap (snd (check_availability env self w))
         = (heap w)(statistics self := (heap w (statistics self))
             \<lparr>total_checks := total_checks (heap w (statistics self)) + 1,
              error_count := error_count (heap w (statistics self)) + 1\<rparr>)
     \<and> send_calls (trace (snd (check_availability env self w))) = send_calls (trace w)"
  using assms
  by (auto simp: check_availability_failed_eq check_availability_bad_status_eq incr_heap)

theorem check_availability_error_witness:
  "fst (check_availability answer_timeout main_checker (initial_world ''posix'')) = Inr False
   \<and> heap (snd (check_availability answer_timeout main_checker (initial_world ''posix''))) 0
       = \<lparr>total_checks = 1, in_stock_count = 0, out_of_stock_count = 0, error_count = 1\<rparr>
   \<and> fst (check_availability answer_server_error main_checker (initial_world ''posix'')) = Inr False
   \<and> heap (snd (check_availability answer_server_error main_checker (initial_world ''posix''))) 0
       = \<lparr>total_checks = 1, in_stock_count = 0, out_of_stock_count = 0, error_count = 1\<rparr>"
proof -
  have h1: "(\<exists>msg. http_post answer_timeout = Raises (RequestException msg))
           \<or> (\<exists>status_code text. http_post answer_timeout = Response status_code text \<and> status_code \<noteq> 200)"
    by (simp add: answer_timeout_def)
  have h2: "(\<exists>msg. http_post answer_server_error = Raises (RequestException msg))
           \<or> (\<exists>status_code text. http_post answer_server_error = Response status_code text \<and> status_code \<noteq> 200)"
    by (simp add: answer_server_error_def)
  show ?thesis
    using check_availability_error [OF h1, of main_checker "initial_world ''posix''"]
          check_availability_error [OF h2, of main_checker "initial_world ''posix''"]
    by (simp add: main_checker_def AirUpChecker_init_def initial_world_def Statistics_init_def)
qed

section \<open>Counters\<close>

lemma check_availability_handled_result:
  assumes "handled env"
  shows "\<exists>b. fst (check_availability env self w) = Inr b"
proof (cases "http_post env")
  case (Raises e)
  then obtain msg where "e = RequestException msg"
    using assms by (cases e) (simp_all add: handled_def)
  then show ?thesis using Raises by (auto simp: check_availability_failed_eq)
next
  case (Response status_code body)
  show ?thesis
  proof (cases "status_code = 200")
    case False
    then show ?thesis using Response by (auto simp: check_availability_bad_status_eq)
  next
    case True
    show ?thesis
    proof (cases "str_contains body ''OUT_OF_STOCK''")
      case True
      then show ?thesis using Response \<open>status_code = 200\<close>
        by (auto simp: check_availability_out_of_stock_eq)
    next
      case False
      then show ?thesis using Response \<open>status_code = 200\<close>
        by (auto simp: check_availability_in_stock_eq)
    qed
  qed
qed

lemma check_availability_heap_cases:
  assumes "handled env"
  shows "heap (snd (check_availability env self w))
     = (heap w)(statistics self := (heap w (statistics self))
         \<lparr>total_checks := total_checks (heap w (statistics self)) + 1,
          in_stock_count := in_stock_count (heap w (statistics self)) + 1\<rparr>)
   \<or> heap (snd (check_availability env self w))
     = (heap w)(statistics self := (heap w (statistics self))
         \<lparr>total_checks := total_checks (heap w (statistics self)) + 1,
          out_of_stock_count := out_of_stock_count (heap w (statistics self)) + 1\<rparr>)
   \<or> heap (snd (check_availability env self w))
     = (heap w)(statistics self := (heap w (statistics self))
         \<lparr>total_checks := total_checks (heap w (statistics self)) + 1,
          error_count := error_count (heap w (statistics self)) + 1\<rparr>)"
proof (cases "http_post env")
  case (Raises e)
  then obtain msg where "e = RequestException msg"
    using assms by (cases e) (simp_all add: handled_def)
  then show ?thesis using Raises by (simp add: check_availability_failed_eq incr_heap)
next
  case (Response status_code body)
  show ?thesis
  proof (cases "status_code = 200")
    case False
    then show ?thesis using Response by (simp add: check_availability_bad_status_eq incr_heap)
  next
    case True
    show ?thesis
    proof (cases "str_contains body ''OUT_OF_STOCK''")
      case True
      then show ?thesis using Response \<open>status_code = 200\<close>
        by (simp add: check_availability_out_of_stock_eq incr_heap)
    next
      case False
      then show ?thesis using Response \<open>status_code = 200\<close>
        by (simp add: check_availability_in_stock_eq incr_heap)
    qed
  qed
qed

lemma check_availability_step:
  fixes env self w
  defines "s \<equiv> heap w (statistics self)"
    and "s' \<equiv> heap (snd (check_availability env self w)) (statistics self)"
  assumes "handled env"
  shows "total_checks s' = total_checks s + 1
     \<and> ((in_stock_count s' = in_stock_count s + 1 \<and> out_of_stock_count s' = out_of_stock_count s
            \<and> error_count s' = error_count s)
        \<or> (in_stock_count s' = in_stock_count s \<and> out_of_stock_count s' = out_of_stock_count s + 1
            \<and> error_count s' = error_count s)
        \<or> (in_stock_count s' = in_stock_count s \<and> out_of_stock_count s' = out_of_stock_count s
            \<and> error_count s' = error_count s + 1))"
  using check_availability_heap_cases [OF assms(3), of self w] unfolding s_def s'_def
  by (elim disjE) simp_all

lemma check_availability_unhandled:
  assumes "\<not> handled env"
  shows "\<exists>e. check_availability env self w
           = (Inl e, emit (HttpPost (url (product_config self)) (headers self) (get_request_body self))
                       (incr_total_checks (statistics self) w))"
proof (cases "http_post env")
  case (Response status_code body)
  then show ?thesis using assms by (simp add: handled_def)
next
  case (Raises e)
  then have "\<not> is_RequestException e" using assms by (simp add: handled_def)
  then show ?thesis using Raises check_availability_escapes_eq by blast
qed

lemma check_availability_unhandled_step:
  fixes env self w
  defines "s \<equiv> heap w (statistics self)"
    and "s' \<equiv> heap (snd (check_availability env self w)) (statistics self)"
  assumes "\<not> handled env"
  shows "total_checks s' = total_checks s + 1 \<and> in_stock_count s' = in_stock_count s
     \<and> out_of_stock_count s' = out_of_stock_count s \<and> error_count s' = error_count s
     \<and> (\<exists>e. fst (check_availability env self w) = Inl e)"
proof -
  obtain e where "check_availability env self w
           = (Inl e, emit (HttpPost (url (product_config self)) (headers self) (get_request_body self))
                       (incr_total_checks (statistics self) w))"
    using check_availability_unhandled [OF assms(3)] by blast
  then show ?thesis unfolding s_def s'_def by (simp add: incr_heap)
qed

lemma run_checks_counters:
  fixes envs self w
  defines "s \<equiv> heap w (statistics self)"
    and "t \<equiv> heap (snd (run_checks envs self w)) (statistics self)"
  shows "total_checks s \<le> total_checks t \<and> total_checks t \<le> total_checks s + int (length envs)
   \<and> in_stock_count s \<le> in_stock_count t \<and> out_of_stock_count s \<le> out_of_stock_count t
   \<and> error_count s \<le> error_count t
   \<and> (in_stock_count t + out_of_stock_count t + error_count t)
        - (in_stock_count s + out_of_stock_count s + error_count s)
      \<le> total_checks t - total_checks s
   \<and> (list_all handled envs \<longrightarrow>
        fst (run_checks envs self w) = Inr ()
        \<and> total_checks t = total_checks s + int (length envs)
        \<and> in_stock_count t + out_of_stock_count t + error_count t
           = in_stock_count s + out_of_stock_count s + error_count s + int (length envs))"
  unfolding s_def t_def
proof (induction envs arbitrary: w)
  case Nil
  show ?case by simp
next
  case (Cons env envs)
  obtain r w1 where c: "check_availability env self w = (r, w1)"
    by (cases "check_availability env self w")
  show ?case
  proof (cases "handled env")
    case False
    note step = check_availability_unhandled_step [OF False, of self w]
    obtain e where "r = Inl e" using step c by auto
    then have run: "run_checks (env # envs) self w = (Inl e, w1)" using c by simp
    show ?thesis using step c False unfolding run by simp
  next
    case True
    note step = check_availability_step [OF True, of self w]
    obtain b where "r = Inr b" using check_availability_handled_result [OF True, of self w] c by auto
    then have run: "run_checks (env # envs) self w = run_checks envs self w1" using c by simp
    note ih = Cons.IH [of w1]
    have w1: "heap w1 = heap (snd (check_availability env self w))" using c by simp
    show ?thesis using step ih True unfolding run w1
      by (simp only: list.size length_Cons of_nat_Suc list.pred_inject) linarith
  qed
qed

text \<open>
  Claim C2, as stated, fails: \<^verbatim>\<open>total_checks\<close> is incremented before the \<^verbatim>\<open>try\<close>, and
  the handler catches only a \<^verbatim>\<open>RequestException\<close>. When the POST raises another
  exception, the exception leaves \<^verbatim>\<open>check_availability\<close> with \<^verbatim>\<open>total_checks\<close> one
  higher and none of the three outcome counters changed.
\<close>

theorem counters_after_unhandled_exception:
  "fst (check_availability answer_location_error main_checker (initial_world ''posix''))
     = Inl (OtherException ''Failed to parse: label empty or too long'')
   \<and> heap (snd (check_availability answer_location_error main_checker (initial_world ''posix''))) 0
     = \<lparr>total_checks = 1, in_stock_count = 0, out_of_stock_count = 0, error_count = 0\<rparr>
   \<and> heap (initial_world ''posix'') 0
     = \<lparr>total_checks = 0, in_stock_count = 0, out_of_stock_count = 0, error_count = 0\<rparr>"
  by (simp add: check_availability_escapes_eq [of _ "OtherException ''Failed to parse: label empty or too long''"]
        answer_location_error_def incr_heap main_checker_def AirUpChecker_init_def initial_world_def
        Statistics_init_def)

text \<open>
  Claim C2, amended. One call of \<^verbatim>\<open>check_availability\<close>, from any state \<open>v\<close>, whose POST
  returns a response or raises a \<^verbatim>\<open>RequestException\<close> adds one to \<^verbatim>\<open>total_checks\<close> and
  one to exactly one of \<^verbatim>\<open>in_stock_count\<close>, \<^verbatim>\<open>out_of_stock_count\<close> and
  \<^verbatim>\<open>error_count\<close>, leaving the other two as they were; a call whose POST raises another
  exception adds one to \<^verbatim>\<open>total_checks\<close> only, and the exception leaves the call. So no
  counter ever decreases. After the calls for a list of answers, started with zeroed
  counters, all four counters are non-negative, the three outcome counters add up to at
  most \<^verbatim>\<open>total_checks\<close> and \<^verbatim>\<open>total_checks\<close> is at most the number of answers; when every
  POST returns a response or raises a \<^verbatim>\<open>RequestException\<close>, every call returns,
  \<^verbatim>\<open>total_checks\<close> is the number of calls and the three outcome counters add up to it.
\<close>

theorem counters_account_for_every_check:
  fixes env self v envs w
  defines "s \<equiv> heap v (statistics self)"
    and "s' \<equiv> heap (snd (check_availability env self v)) (statistics self)"
  assumes zero: "heap w (statistics self) = Statistics_init"
  defines "t \<equiv> heap (snd (run_checks envs self w)) (statistics self)"
  shows "total_checks s' = total_checks s + 1
     \<and> (handled env \<longrightarrow>
          (in_stock_count s' = in_stock_count s + 1 \<and> out_of_stock_count s' = out_of_stock_count s
            \<and> error_count s' = error_count s)
        \<or> (in_stock_count s' = in_stock_count s \<and> out_of_stock_count s' = out_of_stock_count s + 1
            \<and> error_count s' = error_count s)
        \<or> (in_stock_count s' = in_stock_count s \<and> out_of_stock_count s' = out_of_stock_count s
            \<and> error_count s' = error_count s + 1))
     \<and> (\<not> handled env \<longrightarrow>
          in_stock_count s' = in_stock_count s \<and> out_of_stock_count s' = out_of_stock_count s
          \<and> error_count s' = error_count s \<and> (\<exists>e. fst (check_availability env self v) = Inl e))
     \<and> total_checks s \<le> total_checks s' \<and> in_stock_count s \<le> in_stock_count s'
     \<and> out_of_stock_count s \<le> out_of_stock_count s' \<and> error_count s \<le> error_count s'
     \<and> (list_all handled envs \<longrightarrow>
          fst (run_checks envs self w) = Inr ()
          \<and> total_checks t = int (length envs)
          \<and> in_stock_count t + out_of_stock_count t + error_count t = total_checks t)
     \<and> in_stock_count t + out_of_stock_count t + error_count t \<le> total_checks t
     \<and> total_checks t \<le> int (length envs)
     \<and> 0 \<le> total_checks t \<and> 0 \<le> in_stock_count t \<and> 0 \<le> out_of_stock_count t \<and> 0 \<le> error_count t"
proof -
  have z: "total_checks (heap w (statistics self)) = 0" "in_stock_count (heap w (statistics self)) = 0"
    "out_of_stock_count (heap w (statistics self)) = 0" "error_count (heap w (statistics self)) = 0"
    using zero by (simp_all add: Statistics_init_def)
  note run = run_checks_counters [of w self envs, folded t_def]
  have one: "total_checks s' = total_checks s + 1"
    using check_availability_step [of env self v] check_availability_unhandled_step [of env self v]
    unfolding s_def s'_def by (cases "handled env") simp_all
  have yes: "(in_stock_count s' = in_stock_count s + 1 \<and> out_of_stock_count s' = out_of_stock_count s
            \<and> error_count s' = error_count s)
        \<or> (in_stock_count s' = in_stock_count s \<and> out_of_stock_count s' = out_of_stock_count s + 1
            \<and> error_count s' = error_count s)
        \<or> (in_stock_count s' = in_stock_count s \<and> out_of_stock_count s' = out_of_stock_count s
            \<and> error_count s' = error_count s + 1)" if "handled env"
    using check_availability_step [OF that, of self v] unfolding s_def s'_def by simp
  have no: "in_stock_count s' = in_stock_count s \<and> out_of_stock_count s' = out_of_stock_count s
          \<and> error_count s' = error_count s \<and> (\<exists>e. fst (check_availability env self v) = Inl e)"
    if "\<not> handled env"
    using check_availability_unhandled_step [OF that, of self v] unfolding s_def s'_def by simp
  have mono: "total_checks s \<le> total_checks s' \<and> in_stock_count s \<le> in_stock_count s'
     \<and> out_of_stock_count s \<le> out_of_stock_count s' \<and> error_count s \<le> error_count s'"
    using one yes no by (cases "handled env") auto
  have all: "fst (run_checks envs self w) = Inr ()
          \<and> total_checks t = int (length envs)
          \<and> in_stock_count t + out_of_stock_count t + error_count t = total_checks t"
    if "list_all handled envs"
    using run z that by simp
  have gen: "in_stock_count t + out_of_stock_count t + error_count t \<le> total_checks t
     \<and> total_checks t \<le> int (length envs)
     \<and> 0 \<le> total_checks t \<and> 0 \<le> in_stock_count t \<and> 0 \<le> out_of_stock_count t \<and> 0 \<le> error_count t"
    using run z by simp
  show ?thesis using one yes no mono all gen by blast
qed

theorem counters_account_for_every_check_witness:
  "fst (run_checks [answer_out_of_stock, answer_timeout, answer_in_stock] main_checker
       (initial_world ''posix'')) = Inr ()
   \<and> total_checks (heap (snd (run_checks [answer_out_of_stock, answer_timeout, answer_in_stock] main_checker
       (initial_world ''posix''))) (statistics main_checker)) = 3
   \<and> in_stock_count (heap (snd (run_checks [answer_out_of_stock, answer_timeout, answer_in_stock] main_checker
       (initial_world ''posix''))) (statistics main_checker))
     + out_of_stock_count (heap (snd (run_checks [answer_out_of_stock, answer_timeout, answer_in_stock] main_checker
       (initial_world ''posix''))) (statistics main_checker))
     + error_count (heap (snd (run_checks [answer_out_of_stock, answer_timeout, answer_in_stock] main_checker
       (initial_world ''posix''))) (statistics main_checker)) = 3
   \<and> total_checks (heap (snd (check_availability answer_server_error main_checker (initial_world ''posix'')))
       (statistics main_checker)) = 1
   \<and> in_stock_count (heap (snd (check_availability answer_location_error main_checker (initial_world ''posix'')))
       (statistics main_checker)) = 0"
proof -
  have zero: "heap (initial_world ''posix'') (statistics main_checker) = Statistics_init"
    by (simp add: initial_world_def)
  have start: "total_checks (heap (initial_world ''posix'') (statistics main_checker)) = 0"
    "in_stock_count (heap (initial_world ''posix'') (statistics main_checker)) = 0"
    by (simp_all add: initial_world_def Statistics_init_def)
  have all: "list_all handled [answer_out_of_stock, answer_timeout, answer_in_stock]"
    by (simp add: handled_def answer_out_of_stock_def answer_timeout_def answer_in_stock_def)
  have bad: "\<not> handled answer_location_error"
    by (simp add: handled_def answer_location_error_def)
  show ?thesis
    using counters_account_for_every_check [OF zero, of answer_server_error "initial_world ''posix''"
        "[answer_out_of_stock, answer_timeout, answer_in_stock]"]
      counters_account_for_every_check [OF zero, of answer_location_error "initial_world ''posix''" "[]"]
      start all bad
    by simp
qed

section \<open>The notification fan-out\<close>

lemma notify_all_result: "fst (notify_all env self t m st w) = Inr ()"
  by (simp add: notify_all_def notify_loop_result)

lemma notify_all_logged:
  assumes "i < length (notification_services self)"
    and "fst (send_notification env i (notification_services self ! i) t m st w0) = Inl e"
  shows "ConsoleLog (''Error sending notification via '' @ class_name (notification_services self ! i)
            @ '': '' @ str_exn e) ERROR
           \<in> set (trace (snd (notify_all env self t m st w)))"
  using notify_loop_logged [of i "notification_services self" env 0 t m st w0 e w] assms
  by (simp add: notify_all_def)

lemma update_title_trace_subset: "set (trace w) \<subseteq> set (trace (update_title r w))"
  by (auto simp: update_title_def Let_def)

text \<open>
  Claim C5. For every list of registered backends and every title, message and status,
  \<^verbatim>\<open>_notify_all\<close> returns normally (no exception leaves it), the invocations of
  \<^verbatim>\<open>send_notification\<close> it makes are exactly one per backend, in registration order,
  whether or not any of them raises, and the exception of each backend that raises is
  logged at error level with the backend's class name.
\<close>

theorem notify_all_calls_every_backend:
  "fst (notify_all env self title message status w) = Inr ()
   \<and> send_calls (trace (snd (notify_all env self title message status w)))
       = send_calls (trace w) @ map (\<lambda>s. (s, title, message, status)) (notification_services self)
   \<and> (\<forall>i e. i < length (notification_services self)
          \<and> fst (send_notification env i (notification_services self ! i) title message status w) = Inl e
        \<longrightarrow> ConsoleLog (''Error sending notification via '' @ class_name (notification_services self ! i)
               @ '': '' @ str_exn e) ERROR
             \<in> set (trace (snd (notify_all env self title message status w))))"
  using notify_all_logged [of _ self env title message status w _ w]
  by (simp add: notify_all_result)

theorem notify_all_calls_every_backend_witness:
  "fst (notify_all answer_backends_fail main_checker ''t'' ''m'' INFO (initial_world ''nt'')) = Inr ()
   \<and> send_calls (trace (snd (notify_all answer_backends_fail main_checker ''t'' ''m'' INFO (initial_world ''nt''))))
       = [(DesktopNotificationService, ''t'', ''m'', INFO),
          (DiscordNotificationService ''your_webhook_link_here'' (Some 0), ''t'', ''m'', INFO)]
   \<and> ConsoleLog ''Error sending notification via DesktopNotificationService: No usable implementation found!'' ERROR
         \<in> set (trace (snd (notify_all answer_backends_fail main_checker ''t'' ''m'' INFO (initial_world ''nt''))))
   \<and> ConsoleLog ''Error sending notification via DiscordNotificationService: No usable implementation found!'' ERROR
         \<in> set (trace (snd (notify_all answer_backends_fail main_checker ''t'' ''m'' INFO (initial_world ''nt''))))"
proof -
  note fact0 = notify_all_calls_every_backend
    [of answer_backends_fail main_checker "''t''" "''m''" INFO "initial_world ''nt''"]
  have svcs: "notification_services main_checker
      = [DesktopNotificationService, DiscordNotificationService ''your_webhook_link_here'' (Some 0)]"
    by (simp add: main_checker_def AirUpChecker_init_def main_notification_services_def
          DiscordNotificationService_init_def)
  have f0: "fst (send_notification answer_backends_fail 0 DesktopNotificationService ''t'' ''m'' INFO
                  (initial_world ''nt'')) = Inl (OtherException ''No usable implementation found!'')"
    by (simp add: answer_backends_fail_def Let_def)
  have f1: "fst (send_notification answer_backends_fail 1
                  (DiscordNotificationService ''your_webhook_link_here'' (Some 0)) ''t'' ''m'' INFO
                  (initial_world ''nt'')) = Inl (OtherException ''No usable implementation found!'')"
    by (simp add: answer_backends_fail_def Let_def)
  from fact0 have logged: "\<And>i e. i < length (notification_services main_checker) \<Longrightarrow>
       fst (send_notification answer_backends_fail i (notification_services main_checker ! i) ''t'' ''m'' INFO
              (initial_world ''nt'')) = Inl e \<Longrightarrow>
       ConsoleLog (''Error sending notification via '' @ class_name (notification_services main_checker ! i)
               @ '': '' @ str_exn e) ERROR
         \<in> set (trace (snd (notify_all answer_backends_fail main_checker ''t'' ''m'' INFO (initial_world ''nt''))))"
    by blast
  have l0: "ConsoleLog ''Error sending notification via DesktopNotificationService: No usable implementation found!'' ERROR
         \<in> set (trace (snd (notify_all answer_backends_fail main_checker ''t'' ''m'' INFO (initial_world ''nt''))))"
    using logged [of 0 "OtherException ''No usable implementation found!''"] f0 by (simp add: svcs)
  have l1: "ConsoleLog ''Error sending notification via DiscordNotificationService: No usable implementation found!'' ERROR
         \<in> set (trace (snd (notify_all answer_backends_fail main_checker ''t'' ''m'' INFO (initial_world ''nt''))))"
    using logged [of 1 "OtherException ''No usable implementation found!''"] f1 by (simp add: svcs)
  show ?thesis using fact0 l0 l1 by (simp add: svcs initial_world_def)
qed

text \<open>
  Claim C9. In the in-stock case, when the \<^verbatim>\<open>send_notification\<close> of every registered
  backend raises, \<^verbatim>\<open>check_availability\<close> still returns \<open>True\<close>, \<^verbatim>\<open>total_checks\<close>
  and \<^verbatim>\<open>in_stock_count\<close> still grow by exactly one with the rest of the store
  unchanged, and each failure ends as a line of the log.
\<close>

theorem in_stock_when_every_backend_raises:
  assumes "http_post env = Response 200 body" and "\<not> str_contains body ''OUT_OF_STOCK''"
    and "\<forall>i < length (notification_services self).
           \<exists>e. fst (send_notification env i (notification_services self ! i)
                       available_title available_message SUCCESS w) = Inl e"
  shows "fst (check_availability env self w) = Inr True
     \<and> heap (snd (check_availability env self w))
         = (heap w)(statistics self := (heap w (statistics self))
             \<lparr>total_checks := total_checks (heap w (statistics self)) + 1,
              in_stock_count := in_stock_count (heap w (statistics self)) + 1\<rparr>)
     \<and> (\<forall>i < length (notification_services self).
           \<exists>e. ConsoleLog (''Error sending notification via '' @ class_name (notification_services self ! i)
                   @ '': '' @ str_exn e) ERROR
                 \<in> set (trace (snd (check_availability env self w))))"
proof -
  let ?w3 = "log ''IN STOCK! Sending notifications...'' SUCCESS
               (incr_in_stock_count (statistics self)
                  (emit (HttpPost (url (product_config self)) (headers self) (get_request_body self))
                     (incr_total_checks (statistics self) w)))"
  let ?w4 = "snd (notify_all env self available_title available_message SUCCESS ?w3)"
  note eq = check_availability_in_stock_eq [OF assms(1,2), of self w]
  have logged: "\<exists>e. ConsoleLog (''Error sending notification via '' @ class_name (notification_services self ! i)
                   @ '': '' @ str_exn e) ERROR
                 \<in> set (trace (snd (check_availability env self w)))"
    if i: "i < length (notification_services self)" for i
  proof -
    obtain e where e: "fst (send_notification env i (notification_services self ! i)
                       available_title available_message SUCCESS w) = Inl e"
      using assms(3) i by blast
    have "ConsoleLog (''Error sending notification via '' @ class_name (notification_services self ! i)
                   @ '': '' @ str_exn e) ERROR \<in> set (trace ?w4)"
      using notify_all_logged [OF i e] .
    then have "ConsoleLog (''Error sending notification via '' @ class_name (notification_services self ! i)
                   @ '': '' @ str_exn e) ERROR \<in> set (trace (update_title (statistics self) ?w4))"
      using update_title_trace_subset by blast
    then show ?thesis using eq by auto
  qed
  show ?thesis using logged by (simp add: eq incr_heap)
qed

theorem in_stock_when_every_backend_raises_witness:
  "fst (check_availability answer_backends_fail main_checker (initial_world ''nt'')) = Inr True
   \<and> heap (snd (check_availability answer_backends_fail main_checker (initial_world ''nt''))) 0
       = \<lparr>total_checks = 1, in_stock_count = 1, out_of_stock_count = 0, error_count = 0\<rparr>"
proof -
  have h1: "http_post answer_backends_fail = Response 200 ''0:[]''"
    by (simp add: answer_backends_fail_def)
  have h2: "\<not> str_contains ''0:[]'' ''OUT_OF_STOCK''"
    by simp
  have svcs: "notification_services main_checker
      = [DesktopNotificationService, DiscordNotificationService ''your_webhook_link_here'' (Some 0)]"
    by (simp add: main_checker_def AirUpChecker_init_def main_notification_services_def
          DiscordNotificationService_init_def)
  have h3: "\<forall>i < length (notification_services main_checker).
           \<exists>e. fst (send_notification answer_backends_fail i (notification_services main_checker ! i)
                       available_title available_message SUCCESS (initial_world ''nt'')) = Inl e"
    by (simp add: svcs answer_backends_fail_def Let_def All_less_Suc2 less_Suc_eq)
  show ?thesis
    using in_stock_when_every_backend_raises [OF h1 h2 h3]
    by (simp add: main_checker_def AirUpChecker_init_def initial_world_def Statistics_init_def)
qed

text \<open>
  Claim C10. The constructor of \<^verbatim>\<open>DiscordNotificationService\<close> leaves the object without
  a \<^verbatim>\<open>statistics\<close> attribute; \<^verbatim>\<open>send_notification\<close> on such an object raises an
  \<^verbatim>\<open>AttributeError\<close> and the only event of the call is its invocation: nothing is
  posted to the webhook. \<^verbatim>\<open>AirUpChecker.__init__\<close> gives the attribute to the Discord
  backends of its list and to no other backend, and a Discord backend that went through it
  does post to the webhook, with the counters of the shared object.
\<close>

theorem discord_without_statistics_raises:
  "DiscordNotificationService_init webhook_url = DiscordNotificationService webhook_url None
   \<and> (\<exists>msg. fst (send_notification env i (DiscordNotificationService_init webhook_url) title message status w)
              = Inl (AttributeError msg))
   \<and> trace (snd (send_notification env i (DiscordNotificationService_init webhook_url) title message status w))
       = trace w @ [SendNotification (DiscordNotificationService_init webhook_url) title message status]
   \<and> notification_services (AirUpChecker_init cfg services r) = map (share_statistics r) services
   \<and> (\<forall>s \<in> set (notification_services (AirUpChecker_init cfg services r)).
         s = DesktopNotificationService \<or> (\<exists>u. s = DiscordNotificationService u (Some r)))
   \<and> share_statistics r DesktopNotificationService = DesktopNotificationService
   \<and> trace (snd (send_notification env i (share_statistics r (DiscordNotificationService_init webhook_url))
                    title message status w))
       = trace w @ [SendNotification (DiscordNotificationService webhook_url (Some r)) title message status,
                    WebhookPost webhook_url [make_embed title message status (utcnow env) (heap w r)]]"
proof -
  have a: "\<forall>s \<in> set (notification_services (AirUpChecker_init cfg services r)).
         s = DesktopNotificationService \<or> (\<exists>u. s = DiscordNotificationService u (Some r))"
  proof
    fix s assume "s \<in> set (notification_services (AirUpChecker_init cfg services r))"
    then obtain s0 where "s = share_statistics r s0" by (auto simp: AirUpChecker_init_def)
    then show "s = DesktopNotificationService \<or> (\<exists>u. s = DiscordNotificationService u (Some r))"
      by (cases s0) simp_all
  qed
  show ?thesis using a
    by (simp add: DiscordNotificationService_init_def no_statistics_attribute_def Let_def
          AirUpChecker_init_def split: option.splits)
qed

theorem discord_without_statistics_raises_witness:
  "(\<exists>msg. fst (send_notification answer_in_stock 0 (DiscordNotificationService_init ''hook'')
       ''t'' ''m'' SUCCESS (initial_world ''posix'')) = Inl (AttributeError msg))
   \<and> trace (snd (send_notification answer_in_stock 0 (DiscordNotificationService_init ''hook'')
       ''t'' ''m'' SUCCESS (initial_world ''posix'')))
     = [SendNotification (DiscordNotificationService ''hook'' None) ''t'' ''m'' SUCCESS]
   \<and> notification_services main_checker
     = [DesktopNotificationService, DiscordNotificationService ''your_webhook_link_here'' (Some 0)]"
  using discord_without_statistics_raises [of "''hook''" answer_in_stock 0 "''t''" "''m''" SUCCESS
      "initial_world ''posix''" main_product_config main_notification_services 0]
  by (simp add: main_checker_def main_notification_services_def DiscordNotificationService_init_def
        initial_world_def)

section \<open>The console title\<close>

lemma replace_append: "replace old new (xs @ ys) = replace old new xs @ replace old new ys"
  by (simp add: replace_def)

lemma replace_absent: "old \<notin> set s \<Longrightarrow> replace old new s = s"
  by (induction s) (auto simp: replace_def)

lemma escape_title_append: "escape_title (xs @ ys) = escape_title xs @ escape_title ys"
  by (simp add: escape_title_def replace_append)

lemma escape_title_plain:
  assumes "\<forall>c \<in> set s. \<not> caret_special c"
  shows "escape_title s = s"
proof -
  have "CHR ''('' \<notin> set s" "CHR '')'' \<notin> set s" "CHR ''!'' \<notin> set s" "CHR ''^'' \<notin> set s"
    "CHR ''&'' \<notin> set s" "CHR ''|'' \<notin> set s" "CHR ''<'' \<notin> set s" "CHR ''>'' \<notin> set s"
    using assms by (auto simp: caret_special_def)
  then show ?thesis by (simp add: escape_title_def replace_absent)
qed

lemma caret_escape_append: "caret_escape (xs @ ys) = caret_escape xs @ caret_escape ys"
  by (simp add: caret_escape_def)

lemma caret_escape_plain: "\<forall>c \<in> set s. \<not> caret_special c \<Longrightarrow> caret_escape s = s"
  by (induction s) (auto simp: caret_escape_def)

lemma digit_char_plain: "\<not> caret_special (digit_char d)"
  by (simp add: digit_char_def caret_special_def)

lemma str_nat_plain: "\<forall>c \<in> set (str_nat n). \<not> caret_special c"
proof (induction n rule: str_nat.induct)
  case (1 n)
  show ?case
  proof (cases "n < 10")
    case True
    then show ?thesis by (subst str_nat.simps) (simp add: digit_char_plain)
  next
    case False
    then show ?thesis using "1.IH" by (subst str_nat.simps) (simp add: digit_char_plain)
  qed
qed

lemma str_int_plain: "\<forall>c \<in> set (str_int i). \<not> caret_special c"
  using str_nat_plain by (simp add: str_int_def caret_special_def)

lemma escape_title_prefix: "escape_title ''AirUp Checker | No Stock: '' = ''AirUp Checker ^| No Stock: ''"
  by (simp add: escape_title_def replace_def)

lemma escape_title_middle: "escape_title '' | Stock: '' = '' ^| Stock: ''"
  by (simp add: escape_title_def replace_def)

lemma caret_escape_prefix: "caret_escape ''AirUp Checker | No Stock: '' = ''AirUp Checker ^| No Stock: ''"
  by (simp add: caret_escape_def caret_special_def)

lemma caret_escape_middle: "caret_escape '' | Stock: '' = '' ^| Stock: ''"
  by (simp add: caret_escape_def caret_special_def)

lemma escape_title_title_text:
  "escape_title (title_text st)
     = ''AirUp Checker ^| No Stock: '' @ str_int (out_of_stock_count st)
        @ '' ^| Stock: '' @ str_int (in_stock_count st)"
  unfolding title_text_def escape_title_append escape_title_prefix escape_title_middle
  by (simp add: escape_title_plain str_int_plain)

lemma caret_escape_title_text:
  "caret_escape (title_text st)
     = ''AirUp Checker ^| No Stock: '' @ str_int (out_of_stock_count st)
        @ '' ^| Stock: '' @ str_int (in_stock_count st)"
  unfolding title_text_def caret_escape_append caret_escape_prefix caret_escape_middle
  by (simp add: caret_escape_plain str_int_plain)

text \<open>
  Claim C8. For every state of the statistics object, the chain of replacements of
  \<^verbatim>\<open>update_title\<close> turns the title into the string in which each of the characters
  \<^verbatim>\<open>( ) ! ^ & | < >\<close> of the title is prefixed with exactly one caret and nothing else
  is changed: the two bars of the title become \<^verbatim>\<open>^|\<close>, and the command handed to
  the operating system carries that string.
\<close>

theorem update_title_escapes_specials:
  "escape_title (title_text (heap w self)) = caret_escape (title_text (heap w self))
   \<and> escape_title (title_text (heap w self))
       = ''AirUp Checker ^| No Stock: '' @ str_int (out_of_stock_count (heap w self))
          @ '' ^| Stock: '' @ str_int (in_stock_count (heap w self))
   \<and> trace (update_title self w)
       = trace w @ [OsSystem
           (if os_name w = ''nt'' then ''title '' @ caret_escape (title_text (heap w self))
            else ''echo -en '' @ [CHR 0x27, CHR 0x1B] @ '']0;''
                   @ caret_escape (title_text (heap w self)) @ [CHR 0x07, CHR 0x27])]"
  by (simp add: escape_title_title_text caret_escape_title_text update_title_def Let_def)

theorem update_title_escapes_specials_witness:
  "escape_title (title_text \<lparr>total_checks = 15, in_stock_count = 0, out_of_stock_count = 12, error_count = 3\<rparr>)
     = ''AirUp Checker ^| No Stock: 12 ^| Stock: 0''"
proof -
  let ?w = "(initial_world ''nt'')\<lparr>heap := (\<lambda>r. \<lparr>total_checks = 15, in_stock_count = 0,
                                              out_of_stock_count = 12, error_count = 3\<rparr>)\<rparr>"
  have "escape_title (title_text (heap ?w 0))
       = ''AirUp Checker ^| No Stock: '' @ str_int (out_of_stock_count (heap ?w 0))
          @ '' ^| Stock: '' @ str_int (in_stock_count (heap ?w 0))"
    using update_title_escapes_specials [of ?w 0] by blast
  then show ?thesis
    by (simp add: str_int_def str_nat.simps digit_char_def)
qed

text \<open>
  The chain is not that escaping on every string: it doubles the caret it has just put
  before a parenthesis or an exclamation mark. No title of \<^verbatim>\<open>update_title\<close> contains
  one of these three characters.
\<close>

lemma escape_title_paren: "escape_title ''(a)!'' = ''^^(a^^)^^!''"
  by (simp add: escape_title_def replace_def)

section \<open>The main loop: exit on the first stock\<close>

lemma check_availability_result:
  "fst (check_availability env self w)
     = (case escapes env of Some e \<Rightarrow> Inl e | None \<Rightarrow> Inr (in_stock env))"
proof (cases "http_post env")
  case (Raises e)
  show ?thesis
  proof (cases e)
    case (RequestException msg)
    then show ?thesis using Raises
      by (simp add: check_availability_failed_eq in_stock_def escapes_def)
  next
    case (AttributeError msg)
    then show ?thesis using Raises
      by (simp add: check_availability_escapes_eq in_stock_def escapes_def)
  next
    case (OtherException msg)
    then show ?thesis using Raises
      by (simp add: check_availability_escapes_eq in_stock_def escapes_def)
  qed
next
  case (Response status_code body)
  show ?thesis
  proof (cases "status_code = 200")
    case False
    then show ?thesis using Response
      by (simp add: check_availability_bad_status_eq in_stock_def escapes_def)
  next
    case True
    show ?thesis
    proof (cases "str_contains body ''OUT_OF_STOCK''")
      case True
      then show ?thesis using Response \<open>status_code = 200\<close>
        by (simp add: check_availability_out_of_stock_eq in_stock_def escapes_def)
    next
      case False
      then show ?thesis using Response \<open>status_code = 200\<close>
        by (simp add: check_availability_in_stock_eq in_stock_def escapes_def)
    qed
  qed
qed

lemma in_stock_not_escapes: "in_stock env \<Longrightarrow> escapes env = None"
  by (cases "http_post env") (simp_all add: in_stock_def escapes_def)

lemma pacing_append [simp]: "pacing (xs @ ys) = pacing xs @ pacing ys"
  by (simp add: pacing_def)

lemma pacing_Nil [simp]: "pacing [] = []"
  by (simp add: pacing_def)

lemma pacing_Cons [simp]: "pacing (e # es) = pace_of e @ pacing es"
  by (simp add: pacing_def)

lemma update_title_pacing [simp]: "pacing (trace (update_title r w)) = pacing (trace w)"
  by (simp add: update_title_def Let_def)

lemma send_notification_pacing [simp]:
  "pacing (trace (snd (send_notification env i s t m st w))) = pacing (trace w)"
  by (cases s) (auto simp: Let_def split: option.splits)

lemma notify_loop_pacing: "pacing (trace (snd (notify_loop env i svcs t m st w))) = pacing (trace w)"
proof (induction svcs arbitrary: i w)
  case Nil
  show ?case by simp
next
  case (Cons s svcs)
  obtain r w1 where sn: "send_notification env i s t m st w = (r, w1)"
    by (cases "send_notification env i s t m st w")
  have h: "pacing (trace w1) = pacing (trace w)"
    using send_notification_pacing [of env i s t m st w] sn by simp
  show ?case using sn h Cons.IH by (cases r) simp_all
qed

lemma notify_all_pacing [simp]: "pacing (trace (snd (notify_all env self t m st w))) = pacing (trace w)"
  by (simp add: notify_all_def notify_loop_pacing)

lemma check_availability_pacing:
  "pacing (trace (snd (check_availability env self w))) = pacing (trace w) @ [the_post self]"
proof (cases "http_post env")
  case (Raises e)
  show ?thesis
  proof (cases e)
    case (RequestException msg)
    then show ?thesis using Raises by (simp add: check_availability_failed_eq the_post_def)
  next
    case (AttributeError msg)
    then show ?thesis using Raises by (simp add: check_availability_escapes_eq the_post_def)
  next
    case (OtherException msg)
    then show ?thesis using Raises by (simp add: check_availability_escapes_eq the_post_def)
  qed
next
  case (Response status_code body)
  show ?thesis
  proof (cases "status_code = 200")
    case False
    then show ?thesis using Response by (simp add: check_availability_bad_status_eq the_post_def)
  next
    case True
    show ?thesis
    proof (cases "str_contains body ''OUT_OF_STOCK''")
      case True
      then show ?thesis using Response \<open>status_code = 200\<close>
        by (simp add: check_availability_out_of_stock_eq the_post_def)
    next
      case False
      then show ?thesis using Response \<open>status_code = 200\<close>
        by (simp add: check_availability_in_stock_eq the_post_def)
    qed
  qed
qed

lemma cycles_pacing:
  "pacing (trace (cycles n answers checker k w))
     = pacing (trace w) @ concat (replicate n [the_post checker, Sleep 300])"
  by (induction n arbitrary: k w) (simp_all add: check_availability_pacing)

lemma main_loop_continue:
  assumes "no_stock (answers k)"
  shows "main_loop answers checker k w = main_loop answers checker (Suc k) (cycles 1 answers checker k w)"
proof -
  obtain r w1 where c: "check_availability (answers k) checker w = (r, w1)"
    by (cases "check_availability (answers k) checker w")
  have "r = Inr False"
    using check_availability_result [of "answers k" checker w] c assms by (simp add: no_stock_def)
  then show ?thesis using c by (subst main_loop.simps) simp
qed

lemma main_loop_break:
  assumes "in_stock (answers k)"
  shows "main_loop answers checker k w
           = Some (Inr (), log ''Stopping script as item is in stock.'' SUCCESS
                             (snd (check_availability (answers k) checker w)))"
proof -
  obtain r w1 where c: "check_availability (answers k) checker w = (r, w1)"
    by (cases "check_availability (answers k) checker w")
  have "r = Inr True"
    using check_availability_result [of "answers k" checker w] c assms in_stock_not_escapes [OF assms]
    by simp
  then show ?thesis using c by (subst main_loop.simps) simp
qed

lemma main_loop_raise:
  assumes "escapes (answers k) = Some e"
  shows "main_loop answers checker k w
           = Some (Inl e, snd (check_availability (answers k) checker w))"
proof -
  obtain r w1 where c: "check_availability (answers k) checker w = (r, w1)"
    by (cases "check_availability (answers k) checker w")
  have "r = Inl e"
    using check_availability_result [of "answers k" checker w] c assms by simp
  then show ?thesis using c by (subst main_loop.simps) simp
qed

lemma main_loop_unroll:
  "\<forall>j<n. no_stock (answers (k + j)) \<Longrightarrow>
     main_loop answers checker k w = main_loop answers checker (k + n) (cycles n answers checker k w)"
proof (induction n arbitrary: k w)
  case 0
  show ?case by simp
next
  case (Suc n)
  have k: "no_stock (answers k)" using Suc.prems by force
  have rest: "\<forall>j<n. no_stock (answers (Suc k + j))"
  proof (intro allI impI)
    fix j assume "j < n"
    then have "no_stock (answers (k + Suc j))" using Suc.prems by blast
    then show "no_stock (answers (Suc k + j))" by simp
  qed
  show ?case
    using main_loop_continue [of answers k checker w] k Suc.IH [OF rest] by simp
qed

lemma main_loop_only_exit:
  assumes "main_loop answers checker k w = Some r"
  shows "\<exists>n. (\<forall>j<n. no_stock (answers (k + j)))
           \<and> ((fst r = Inr () \<and> in_stock (answers (k + n)))
              \<or> (\<exists>e. fst r = Inl e \<and> escapes (answers (k + n)) = Some e))"
proof (rule main_loop.raw_induct
    [where P = "\<lambda>answers checker k w r. \<exists>n. (\<forall>j<n. no_stock (answers (k + j)))
           \<and> ((fst r = Inr () \<and> in_stock (answers (k + n)))
              \<or> (\<exists>e. fst r = Inl e \<and> escapes (answers (k + n)) = Some e))", OF _ assms])
  fix loop :: "(nat \<Rightarrow> outcomes) \<Rightarrow> AirUpChecker \<Rightarrow> nat \<Rightarrow> world \<Rightarrow> ((exn + unit) \<times> world) option"
  fix answers checker k w r
  assume IH: "\<And>answers checker k w r. loop answers checker k w = Some r \<Longrightarrow>
      \<exists>n. (\<forall>j<n. no_stock (answers (k + j)))
           \<and> ((fst r = Inr () \<and> in_stock (answers (k + n)))
              \<or> (\<exists>e. fst r = Inl e \<and> escapes (answers (k + n)) = Some e))"
  assume body: "(case check_availability (answers k) checker w of
        (Inl e, w1) \<Rightarrow> Some (Inl e, w1)
      | (Inr available, w1) \<Rightarrow>
          if available then Some (Inr (), log ''Stopping script as item is in stock.'' SUCCESS w1)
          else loop answers checker (Suc k)
                 (emit (Sleep 300)
                    (emit PrintLine (log ''Waiting 5 minutes before the next check...'' INFO w1))))
      = Some r"
  obtain b w1 where c: "check_availability (answers k) checker w = (b, w1)"
    by (cases "check_availability (answers k) checker w")
  have b: "b = (case escapes (answers k) of Some e \<Rightarrow> Inl e | None \<Rightarrow> Inr (in_stock (answers k)))"
    using check_availability_result [of "answers k" checker w] c by simp
  let ?goal = "\<exists>n. (\<forall>j<n. no_stock (answers (k + j)))
           \<and> ((fst r = Inr () \<and> in_stock (answers (k + n)))
              \<or> (\<exists>e. fst r = Inl e \<and> escapes (answers (k + n)) = Some e))"
  have now: ?goal
    if "(fst r = Inr () \<and> in_stock (answers k)) \<or> (\<exists>e. fst r = Inl e \<and> escapes (answers k) = Some e)"
  proof -
    have "(\<forall>j<0. no_stock (answers (k + j)))
           \<and> ((fst r = Inr () \<and> in_stock (answers (k + 0)))
              \<or> (\<exists>e. fst r = Inl e \<and> escapes (answers (k + 0)) = Some e))"
      using that by simp
    then show ?thesis by blast
  qed
  show ?goal
  proof (cases "escapes (answers k)")
    case (Some e)
    then have "fst r = Inl e" using body c b by auto
    then show ?thesis using Some now by blast
  next
    case None
    show ?thesis
    proof (cases "in_stock (answers k)")
      case True
      then have "fst r = Inr ()" using body c b None by auto
      then show ?thesis using True now by blast
    next
      case False
      then have here: "no_stock (answers k)" using None by (simp add: no_stock_def)
      have "loop answers checker (Suc k)
                 (emit (Sleep 300)
                    (emit PrintLine (log ''Waiting 5 minutes before the next check...'' INFO w1))) = Some r"
        using body c b None False by simp
      from IH [OF this]
      obtain n where before: "\<forall>j<n. no_stock (answers (Suc k + j))"
        and last: "(fst r = Inr () \<and> in_stock (answers (Suc k + n)))
              \<or> (\<exists>e. fst r = Inl e \<and> escapes (answers (Suc k + n)) = Some e)"
        by blast
      have last': "(fst r = Inr () \<and> in_stock (answers (k + Suc n)))
              \<or> (\<exists>e. fst r = Inl e \<and> escapes (answers (k + Suc n)) = Some e)"
        using last by simp
      have "\<forall>j<Suc n. no_stock (answers (k + j))"
      proof (intro allI impI)
        fix j assume j: "j < Suc n"
        show "no_stock (answers (k + j))"
        proof (cases j)
          case 0
          then show ?thesis using here by simp
        next
          case (Suc i)
          then have "i < n" using j by simp
          then show ?thesis using before Suc by simp
        qed
      qed
      then show ?thesis using last' by blast
    qed
  qed
qed

lemma main_loop_forever:
  assumes "\<forall>j. no_stock (answers j)"
  shows "main_loop answers checker k w = None"
proof (cases "main_loop answers checker k w")
  case None
  then show ?thesis .
next
  case (Some r)
  obtain n where "(fst r = Inr () \<and> in_stock (answers (k + n)))
              \<or> (\<exists>e. fst r = Inl e \<and> escapes (answers (k + n)) = Some e)"
    using main_loop_only_exit [OF Some] by blast
  moreover have "\<not> in_stock (answers (k + n))" "escapes (answers (k + n)) = None"
    using assms by (simp_all add: no_stock_def)
  ultimately show ?thesis by auto
qed

lemma main_unfold:
  "main os answers
     = main_loop answers main_checker 0
         (log ''Starting availability checker for AirUp Charcoal Grey bottle...'' INFO
            (update_title 0
               (emit (OsSystem (if os = ''nt'' then ''cls'' else ''clear'')) (initial_world os))))"
proof -
  have "(emit (OsSystem (if os = ''nt'' then ''cls'' else ''clear''))
           \<lparr>os_name = os, heap = (\<lambda>r. Statistics_init), trace = []\<rparr>)
          \<lparr>heap := (heap (emit (OsSystem (if os = ''nt'' then ''cls'' else ''clear''))
                \<lparr>os_name = os, heap = (\<lambda>r. Statistics_init), trace = []\<rparr>))(0 := Statistics_init)\<rparr>
        = emit (OsSystem (if os = ''nt'' then ''cls'' else ''clear'')) (initial_world os)"
    by (simp add: emit_def initial_world_def fun_eq_iff)
  then show ?thesis by (simp add: main_def Let_def main_checker_def)
qed

text \<open>
  Claim C6, as stated, fails: there is another way out of the loop. The handler of
  \<^verbatim>\<open>check_availability\<close> catches only a \<^verbatim>\<open>RequestException\<close> and \<^verbatim>\<open>main\<close> has no
  handler, so when the POST of the second check raises a \<^verbatim>\<open>LocationParseError\<close> the run
  ends with that exception, after one sleep and two POSTs, without any check having
  reported stock.
\<close>

theorem main_ends_with_unhandled_exception:
  "map_option fst (main ''posix'' answers_location_error)
     = Some (Inl (OtherException ''Failed to parse: label empty or too long''))
   \<and> map_option (pacing \<circ> trace \<circ> snd) (main ''posix'' answers_location_error)
     = Some [the_post main_checker, Sleep 300, the_post main_checker]
   \<and> \<not> in_stock (answers_location_error 0) \<and> \<not> in_stock (answers_location_error 1)"
proof -
  let ?w = "log ''Starting availability checker for AirUp Charcoal Grey bottle...'' INFO
              (update_title 0 (emit (OsSystem (if ''posix'' = ''nt'' then ''cls'' else ''clear''))
                 (initial_world ''posix'')))"
  have start: "pacing (trace ?w) = []"
    by (simp add: initial_world_def)
  have first: "\<forall>j<1. no_stock (answers_location_error (0 + j))"
    by (simp add: answers_location_error_def no_stock_def in_stock_def escapes_def answer_out_of_stock_def)
  have second: "escapes (answers_location_error 1)
      = Some (OtherException ''Failed to parse: label empty or too long'')"
    by (simp add: answers_location_error_def escapes_def answer_location_error_def)
  have run: "main_loop answers_location_error main_checker 0 ?w
      = Some (Inl (OtherException ''Failed to parse: label empty or too long''),
              snd (check_availability (answers_location_error 1) main_checker
                     (cycles 1 answers_location_error main_checker 0 ?w)))"
    using main_loop_unroll [of 1 answers_location_error 0 main_checker ?w] first
      main_loop_raise [of answers_location_error 1
          "OtherException ''Failed to parse: label empty or too long''" main_checker
          "cycles 1 answers_location_error main_checker 0 ?w"] second
    by simp
  have pace: "pacing (trace (snd (check_availability (answers_location_error 1) main_checker
                     (cycles 1 answers_location_error main_checker 0 ?w))))
      = [the_post main_checker, Sleep 300, the_post main_checker]"
    using start by (simp add: check_availability_pacing cycles_pacing del: cycles.simps)
  have none: "\<not> in_stock (answers_location_error 0)" "\<not> in_stock (answers_location_error 1)"
    by (simp_all add: answers_location_error_def in_stock_def answer_out_of_stock_def
          answer_location_error_def)
  show ?thesis using run pace none by (simp add: main_unfold)
qed

text \<open>
  Claim C6, amended. \<^verbatim>\<open>check_availability\<close> returns \<open>True\<close> exactly on the answers with
  stock, and an exception leaves it exactly when the POST raises one that is not a
  \<^verbatim>\<open>RequestException\<close>. If the answer of iteration \<open>n\<close> is the first with stock and every
  earlier check returned \<open>False\<close>, the loop returns normally right after that check: the
  run has made \<open>n + 1\<close> POSTs with a sleep of 300 seconds after each of the first \<open>n\<close>, and
  after the last POST neither a sleep nor a POST, only the stop line of the log. If every
  check returns \<open>False\<close> the loop never returns, and after every number \<open>m\<close> of iterations
  it has made \<open>m\<close> POSTs, each followed by a sleep of 300 seconds. The only other way out
  is an exception other than a \<^verbatim>\<open>RequestException\<close> raised by the POST of a check, after
  checks that all returned \<open>False\<close>: it leaves \<^verbatim>\<open>check_availability\<close> and the loop right
  after that POST. Whenever the loop ends, it ends in one of these two ways.
\<close>

theorem main_loop_exits_on_first_stock:
  "fst (check_availability env checker w)
     = (case escapes env of Some e \<Rightarrow> Inl e | None \<Rightarrow> Inr (in_stock env))
   \<and> (in_stock (answers n) \<and> (\<forall>j<n. no_stock (answers j)) \<longrightarrow>
        main_loop answers checker 0 w
          = Some (Inr (), log ''Stopping script as item is in stock.'' SUCCESS
                            (snd (check_availability (answers n) checker (cycles n answers checker 0 w))))
        \<and> pacing (trace (log ''Stopping script as item is in stock.'' SUCCESS
                            (snd (check_availability (answers n) checker (cycles n answers checker 0 w)))))
            = pacing (trace w) @ concat (replicate n [the_post checker, Sleep 300]) @ [the_post checker])
   \<and> ((\<forall>j. no_stock (answers j)) \<longrightarrow>
        main_loop answers checker 0 w = None
        \<and> (\<forall>m. pacing (trace (cycles m answers checker 0 w))
                 = pacing (trace w) @ concat (replicate m [the_post checker, Sleep 300])))
   \<and> (escapes (answers n) = Some e \<and> (\<forall>j<n. no_stock (answers j)) \<longrightarrow>
        main_loop answers checker 0 w
          = Some (Inl e, snd (check_availability (answers n) checker (cycles n answers checker 0 w)))
        \<and> pacing (trace (snd (check_availability (answers n) checker (cycles n answers checker 0 w))))
            = pacing (trace w) @ concat (replicate n [the_post checker, Sleep 300]) @ [the_post checker])
   \<and> (\<forall>r. main_loop answers checker 0 w = Some r \<longrightarrow>
        (\<exists>n. (\<forall>j<n. no_stock (answers j))
           \<and> ((fst r = Inr () \<and> in_stock (answers n))
              \<or> (\<exists>e. fst r = Inl e \<and> escapes (answers n) = Some e))))"
proof -
  have stop: "main_loop answers checker 0 w
          = Some (Inr (), log ''Stopping script as item is in stock.'' SUCCESS
                            (snd (check_availability (answers n) checker (cycles n answers checker 0 w))))"
    if "in_stock (answers n)" and "\<forall>j<n. no_stock (answers j)"
    using main_loop_unroll [of n answers 0 checker w] main_loop_break [of answers n checker] that
    by simp
  have never: "main_loop answers checker 0 w = None" if "\<forall>j. no_stock (answers j)"
    using main_loop_forever [OF that] .
  have raise: "main_loop answers checker 0 w
          = Some (Inl e, snd (check_availability (answers n) checker (cycles n answers checker 0 w)))"
    if "escapes (answers n) = Some e" and "\<forall>j<n. no_stock (answers j)"
    using main_loop_unroll [of n answers 0 checker w] main_loop_raise [of answers n e checker] that
    by simp
  have only: "\<exists>n. (\<forall>j<n. no_stock (answers j))
           \<and> ((fst r = Inr () \<and> in_stock (answers n))
              \<or> (\<exists>e. fst r = Inl e \<and> escapes (answers n) = Some e))"
    if "main_loop answers checker 0 w = Some r" for r
    using main_loop_only_exit [OF that] by simp
  show ?thesis
    using stop never raise only
    by (simp add: check_availability_result check_availability_pacing cycles_pacing)
qed

theorem main_loop_exits_on_first_stock_witness:
  "(\<exists>w'. main ''posix'' answers_stock_at_third = Some (Inr (), w')
         \<and> pacing (trace w')
             = [the_post main_checker, Sleep 300, the_post main_checker, Sleep 300, the_post main_checker])
   \<and> main ''posix'' answers_never_stock = None
   \<and> (\<exists>w'. main ''posix'' answers_location_error
             = Some (Inl (OtherException ''Failed to parse: label empty or too long''), w'))"
proof -
  let ?w = "log ''Starting availability checker for AirUp Charcoal Grey bottle...'' INFO
              (update_title 0 (emit (OsSystem (if ''posix'' = ''nt'' then ''cls'' else ''clear''))
                 (initial_world ''posix'')))"
  have start: "pacing (trace ?w) = []"
    by (simp add: initial_world_def)
  have third: "in_stock (answers_stock_at_third 2) \<and> (\<forall>j<2. no_stock (answers_stock_at_third j))"
    by (simp add: answers_stock_at_third_def in_stock_def no_stock_def escapes_def
          answer_in_stock_def answer_out_of_stock_def)
  have never: "\<forall>j. no_stock (answers_never_stock j)"
    by (simp add: answers_never_stock_def in_stock_def no_stock_def escapes_def
          answer_timeout_def answer_out_of_stock_def)
  have second: "escapes (answers_location_error 1)
        = Some (OtherException ''Failed to parse: label empty or too long'')
      \<and> (\<forall>j<1. no_stock (answers_location_error j))"
    by (simp add: answers_location_error_def no_stock_def in_stock_def escapes_def
          answer_out_of_stock_def answer_location_error_def)
  have a: "main_loop answers_stock_at_third main_checker 0 ?w
          = Some (Inr (), log ''Stopping script as item is in stock.'' SUCCESS
               (snd (check_availability (answers_stock_at_third 2) main_checker
                  (cycles 2 answers_stock_at_third main_checker 0 ?w))))
        \<and> pacing (trace (log ''Stopping script as item is in stock.'' SUCCESS
               (snd (check_availability (answers_stock_at_third 2) main_checker
                  (cycles 2 answers_stock_at_third main_checker 0 ?w)))))
            = pacing (trace ?w) @ concat (replicate 2 [the_post main_checker, Sleep 300])
                @ [the_post main_checker]"
    using main_loop_exits_on_first_stock
        [of answer_in_stock main_checker ?w answers_stock_at_third 2 "OtherException ''x''"] third
    by blast
  have b: "main_loop answers_never_stock main_checker 0 ?w = None"
    using main_loop_exits_on_first_stock
        [of answer_in_stock main_checker ?w answers_never_stock 0 "OtherException ''x''"] never
    by blast
  have c: "main_loop answers_location_error main_checker 0 ?w
          = Some (Inl (OtherException ''Failed to parse: label empty or too long''),
                  snd (check_availability (answers_location_error 1) main_checker
                         (cycles 1 answers_location_error main_checker 0 ?w)))"
    using main_loop_exits_on_first_stock
        [of answer_in_stock main_checker ?w answers_location_error 1
            "OtherException ''Failed to parse: label empty or too long''"] second
    by blast
  have two: "concat (replicate 2 [the_post main_checker, Sleep 300])
      = [the_post main_checker, Sleep 300, the_post main_checker, Sleep 300]"
    by (simp add: numeral_2_eq_2)
  show ?thesis
    using a b c start two by (simp add: main_unfold)
qed

section \<open>The request body\<close>

lemma lex_string_plain:
  "json_plain s \<Longrightarrow> lex_string (s @ CHR 0x22 # rest) = map_option (Pair s) (lex_json rest)"
proof (induction s)
  case Nil
  show ?case by simp
next
  case (Cons c s)
  have c: "json_unescaped c" and s: "json_plain s"
    using Cons.prems by (simp_all add: json_plain_def)
  have "c \<noteq> CHR 0x22" "c \<noteq> CHR 0x5C" using c by (simp_all add: json_unescaped_def)
  then show ?case using c Cons.IH [OF s]
    by (cases "lex_json rest") simp_all
qed

lemma lex_request_body:
  assumes "json_plain (cart_id (product_config self))"
    and "json_plain (bottle_handle (product_config self))"
    and "json_plain (flavor_handle (product_config self))"
    and "json_plain (country (product_config self))"
    and "json_plain (language (product_config self))"
  shows "lex_json (get_request_body self)
     = Some [LBracket, LBrace,
             Str ''cartId'', Colon, Str (cart_id (product_config self)), Comma,
             Str ''bottleHandle'', Colon, Str (bottle_handle (product_config self)), Comma,
             Str ''flavorHandle'', Colon, Str (flavor_handle (product_config self)), Comma,
             Str ''country'', Colon, Str (country (product_config self)), Comma,
             Str ''language'', Colon, Str (language (product_config self)),
             RBrace, RBracket]"
  by (simp add: get_request_body_def lex_string_plain [OF assms(1)] lex_string_plain [OF assms(2)]
        lex_string_plain [OF assms(3)] lex_string_plain [OF assms(4)] lex_string_plain [OF assms(5)]
        json_ws_def json_unescaped_def)

text \<open>
  Claim C7, as stated, fails: \<^verbatim>\<open>_get_request_body\<close> pastes the fields between double
  quotes without escaping them. For the \<^verbatim>\<open>cart_id\<close> \<^verbatim>\<open>a","x":"b\<close> the body is a JSON
  array of one object with six members, whose \<^verbatim>\<open>cartId\<close> is \<^verbatim>\<open>a\<close> and not the
  configured \<^verbatim>\<open>cart_id\<close>.
\<close>

theorem request_body_quoted_cart_id:
  "decode_body (get_request_body quoted_checker)
     = Some [(''cartId'', ''a''), (''x'', ''b''),
             (''bottleHandle'', ''bottle-tritan-650ml-charcoal-grey-us''),
             (''flavorHandle'', ''3-pod-variety-pack-vivid-vibes-udb''),
             (''country'', ''it''),
             (''language'', ''en'')]
   \<and> decode_body (get_request_body quoted_checker)
     \<noteq> Some [(''cartId'', cart_id (product_config quoted_checker)),
             (''bottleHandle'', bottle_handle (product_config quoted_checker)),
             (''flavorHandle'', flavor_handle (product_config quoted_checker)),
             (''country'', country (product_config quoted_checker)),
             (''language'', language (product_config quoted_checker))]"
  by (simp add: decode_body_def get_request_body_def quoted_checker_def AirUpChecker_init_def
        main_product_config_def json_ws_def json_unescaped_def)

text \<open>
  Claim C7, amended. For every \<^verbatim>\<open>ProductConfig\<close> whose \<^verbatim>\<open>cart_id\<close>,
  \<^verbatim>\<open>bottle_handle\<close>, \<^verbatim>\<open>flavor_handle\<close>, \<^verbatim>\<open>country\<close> and \<^verbatim>\<open>language\<close> contain no
  double quote, no backslash and no control character, the body produced by
  \<^verbatim>\<open>_get_request_body\<close> is a JSON array containing exactly one object with exactly the
  five string members \<^verbatim>\<open>cartId\<close>, \<^verbatim>\<open>bottleHandle\<close>, \<^verbatim>\<open>flavorHandle\<close>, \<^verbatim>\<open>country\<close>,
  \<^verbatim>\<open>language\<close>, whose values are the corresponding fields.
\<close>

theorem request_body_is_json_when_plain:
  assumes "json_plain (cart_id (product_config self))"
    and "json_plain (bottle_handle (product_config self))"
    and "json_plain (flavor_handle (product_config self))"
    and "json_plain (country (product_config self))"
    and "json_plain (language (product_config self))"
  shows "decode_body (get_request_body self)
     = Some [(''cartId'', cart_id (product_config self)),
             (''bottleHandle'', bottle_handle (product_config self)),
             (''flavorHandle'', flavor_handle (product_config self)),
             (''country'', country (product_config self)),
             (''language'', language (product_config self))]"
  by (simp add: decode_body_def lex_request_body [OF assms])

theorem request_body_is_json_when_plain_witness:
  "decode_body (get_request_body main_checker)
     = Some [(''cartId'', ''your_cart_id_here''),
             (''bottleHandle'', ''bottle-tritan-650ml-charcoal-grey-us''),
             (''flavorHandle'', ''3-pod-variety-pack-vivid-vibes-udb''),
             (''country'', ''it''),
             (''language'', ''en'')]"
proof -
  have cfg: "product_config main_checker = main_product_config"
    by (simp add: main_checker_def AirUpChecker_init_def)
  have p: "json_plain (cart_id (product_config main_checker))"
    "json_plain (bottle_handle (product_config main_checker))"
    "json_plain (flavor_handle (product_config main_checker))"
    "json_plain (country (product_config main_checker))"
    "json_plain (language (product_config main_checker))"
    by (simp_all add: cfg main_product_config_def json_plain_def json_unescaped_def)
  show ?thesis
    using request_body_is_json_when_plain [OF p] by (simp add: cfg main_product_config_def)
qed

section \<open>The substring test\<close>

text \<open>
  \<open>str_contains\<close> is the substring relation: the marker occurs in the text exactly when
  the text is some prefix, then the marker, then some suffix.
\<close>

lemma str_contains_sublist: "str_contains s sub \<longleftrightarrow> sublist sub s"
  by (induction s) (simp_all add: sublist_Cons_right)

end
